theory Spec2Isabelle
  imports Main "HOL-Library.Sublist" "HOL-Library.AList"
begin

section \<open>Strings and numbers of the host language\<close>

text \<open>
  Strings are character lists. A character stands for one code unit in the range
  0..255; the white space that \<^verbatim>\<open>String.prototype.trim\<close> strips is the ECMAScript
  WhiteSpace and LineTerminator set restricted to that range: TAB, LF, VT, FF, CR, SP
  and NBSP.
\<close>

definition isWhiteSpace :: "char \<Rightarrow> bool" where
  "isWhiteSpace c = (of_char c \<in> {9, 10, 11, 12, 13, 32, 160 :: nat})"

definition trim :: "string \<Rightarrow> string" where
  "trim s = rev (dropWhile isWhiteSpace (rev (dropWhile isWhiteSpace s)))"

definition startsWith :: "string \<Rightarrow> string \<Rightarrow> bool" where
  "startsWith s p = prefix p s"

text \<open>
  \<^verbatim>\<open>Number.prototype.toString\<close> on the non-negative integers the program prints
  (ports, process ids, the millisecond clock): the decimal numeral.
\<close>

definition digitChar :: "nat \<Rightarrow> char" where
  "digitChar d = ''0123456789'' ! d"

fun toString :: "nat \<Rightarrow> string" where
  "toString n =
     (if n < 10 then [digitChar n] else toString (n div 10) @ [digitChar (n mod 10)])"

declare toString.simps [simp del]

text \<open>
  \<^verbatim>\<open>parseInt(s, 10)\<close>: leading white space is skipped, one sign is read, then the
  longest run of decimal digits; without a digit the result is NaN, here \<open>None\<close>. The
  value is the exact integer (a double is exact below \<open>2^53\<close>).
\<close>

definition isDigit :: "char \<Rightarrow> bool" where
  "isDigit c = (c \<in> set ''0123456789'')"

definition digitValue :: "char \<Rightarrow> nat" where
  "digitValue c = of_char c - 48"

definition digitsValue :: "string \<Rightarrow> nat" where
  "digitsValue z = foldl (\<lambda>a c. 10 * a + digitValue c) 0 z"

definition parseInt :: "string \<Rightarrow> int option" where
  "parseInt s =
     (let t = dropWhile isWhiteSpace s;
          negative = (t \<noteq> [] \<and> hd t = CHR ''-'');
          u = (if t \<noteq> [] \<and> (hd t = CHR ''+'' \<or> hd t = CHR ''-'') then tl t else t);
          z = takeWhile isDigit u
      in if z = [] then None
         else Some (if negative then - int (digitsValue z) else int (digitsValue z)))"

text \<open>A string or undefined value used as a condition: true for a non-empty string.\<close>

fun truthy :: "string option \<Rightarrow> bool" where
  "truthy None = False"
| "truthy (Some s) = (s \<noteq> [])"

text \<open>
  Errors are values. \<open>Error m\<close> is \<^verbatim>\<open>new Error(m)\<close> thrown by the program itself;
  \<open>PortfinderRejection m\<close> is the rejection of the port probe of the \<^verbatim>\<open>portfinder\<close>
  package, \<open>TypeError m\<close> what the \<^verbatim>\<open>URL\<close> constructor throws on a string that is no
  URL.
\<close>

datatype error = Error string | PortfinderRejection string | TypeError string

section \<open>jupyterLauncher.ts: building the launch parameters\<close>

datatype JupyterType = JupyterNotebook | JupyterLab

fun typeLabel :: "JupyterType \<Rightarrow> string" where
  "typeLabel JupyterNotebook = ''Jupyter Notebook''"
| "typeLabel JupyterLab = ''Jupyter Lab''"

text \<open>The value \<^verbatim>\<open>getLaunchArgs\<close> returns, and \<^verbatim>\<open>JupyterServer\<close>, which extends it.
  The \<^verbatim>\<open>dispose\<close> closure of a \<^verbatim>\<open>JupyterServer\<close> disposes the terminal of its \<open>pid\<close>.
  The field \<open>port\<close> is a number that \<^verbatim>\<open>parseInt\<close> may have produced, \<open>None\<close> being NaN.\<close>

record LaunchInfo =
  shellArgs :: "string list"
  token :: string
  port :: "int option"
  password :: string
  registerWithJupyterExtension :: bool
  cwd :: string
  jupyterExtensionWorkingDirectory :: "string option"

record JupyterServer = LaunchInfo +
  pid :: nat
  type :: JupyterType
  baseUrl :: string

text \<open>The object \<^verbatim>\<open>token = { value, isRandom, isEmpty }\<close>.\<close>

record tokenVar =
  tokenValue :: string
  isRandom :: bool
  isEmpty :: bool

text \<open>The \<^verbatim>\<open>let\<close> variables of \<^verbatim>\<open>getLaunchArgs\<close> (prefix \<open>v_\<close>), which hold the
  launch configuration once the option list has been accepted.\<close>

record locals =
  v_shouldOpenBrowser :: bool
  v_registerWithJupyterExtension :: bool
  v_cors :: bool
  v_cwd :: string
  v_useCustomWorkingDirectory :: bool
  v_customCwd :: "string option"
  v_jupyterExtensionWorkingDirectory :: "string option"
  v_token :: tokenVar
  v_password :: string

text \<open>
  What the function reads from outside: the clock (\<^verbatim>\<open>Date.now()\<close>), the bytes
  returned by the two calls of \<^verbatim>\<open>crypto.randomBytes\<close> (one per password flag) and the
  SHA-1 hex digest of the \<^verbatim>\<open>crypto\<close> module.
\<close>

record env =
  now :: nat
  randomBytes1 :: "nat list"
  randomBytes2 :: "nat list"
  sha1hex :: "string \<Rightarrow> string"

definition hexDigit :: "nat \<Rightarrow> char" where
  "hexDigit d = ''0123456789abcdef'' ! d"

definition hexByte :: "nat \<Rightarrow> string" where
  "hexByte b = [hexDigit (b div 16 mod 16), hexDigit (b mod 16)]"

text \<open>\<^verbatim>\<open>genRandomString(length)\<close>, given the bytes (numbers below 256) that
  \<^verbatim>\<open>randomBytes(ceil(length / 2))\<close> returned.\<close>

definition genRandomString :: "nat \<Rightarrow> nat list \<Rightarrow> string" where
  "genRandomString len bytes = take len (concat (map hexByte bytes))"

definition generateHashedPassword :: "(string \<Rightarrow> string) \<Rightarrow> nat list \<Rightarrow> string \<Rightarrow> string" where
  "generateHashedPassword sha bytes pw =
     (let salt = genRandomString 16 bytes
      in ''sha1:'' @ salt @ '':'' @ sha (pw @ salt))"

text \<open>Lines 431 to 437: the token is materialised, or the function throws.\<close>

definition materializeToken :: "nat \<Rightarrow> tokenVar \<Rightarrow> error + tokenVar" where
  "materializeToken clock t =
     (if isRandom t then Inr (t\<lparr>tokenValue := toString clock\<rparr>)
      else if isEmpty t then Inr (t\<lparr>tokenValue := []\<rparr>)
      else if trim (tokenValue t) = [] then Inl (Error ''Token cannot be empty'')
      else Inr t)"

text \<open>Lines 439 to 476: the argument vector, one \<^verbatim>\<open>push\<close> after the other.\<close>

definition buildShellArgs :: "JupyterType \<Rightarrow> locals \<Rightarrow> string \<Rightarrow> nat \<Rightarrow> env \<Rightarrow> string list" where
  "buildShellArgs ty v tok prt en =
     (let a0 = [''-m'', ''jupyter'', (if ty = JupyterLab then ''lab'' else ''notebook'')];
          a1 = (if \<not> v_shouldOpenBrowser v then a0 @ [''--no-browser''] else a0);
          a2 = (if v_cors v
                then a1 @ [''--NotebookApp.allow_origin'', ''*'',
                           ''--ServerApp.allow_origin'', ''*'']
                else a1);
          a3 = a2 @ [''--NotebookApp.token'', trim tok, ''--ServerApp.token'', trim tok];
          a4 = (if length (trim (v_password v)) \<noteq> 0
                then a3 @ [''--NotebookApp.password'',
                           generateHashedPassword (sha1hex en) (randomBytes1 en) (v_password v),
                           ''--ServerApp.password'',
                           generateHashedPassword (sha1hex en) (randomBytes2 en) (v_password v)]
                else a3 @ [''--NotebookApp.password'', [], ''--ServerApp.password'', []]);
          a5 = (if truthy (v_customCwd v) \<and> v_useCustomWorkingDirectory v
                then a4 @ [''--notebook-dir'', the (v_customCwd v)]
                else if v_cwd v \<noteq> [] then a4 @ [''--notebook-dir'', v_cwd v]
                else a4)
      in a5 @ [''--port'', toString prt])"

text \<open>Lines 431 to 486: token, argument vector and the returned object, for the port
  the probe returned.\<close>

definition buildLaunchInfo :: "JupyterType \<Rightarrow> locals \<Rightarrow> nat \<Rightarrow> env \<Rightarrow> error + LaunchInfo" where
  "buildLaunchInfo ty v prt en =
     (case materializeToken (now en) (v_token v) of
        Inl e \<Rightarrow> Inl e
      | Inr tk \<Rightarrow>
          Inr \<lparr>shellArgs = buildShellArgs ty v (tokenValue tk) prt en,
               token = tokenValue tk,
               port = Some (int prt),
               password = v_password v,
               registerWithJupyterExtension = v_registerWithJupyterExtension v,
               cwd = v_cwd v,
               jupyterExtensionWorkingDirectory = v_jupyterExtensionWorkingDirectory v\<rparr>)"

text \<open>
  Lines 424 to 486, everything after the option list: the port probe (\<open>Inr\<close> the port
  found, \<open>Inl m\<close> a rejection with message \<open>m\<close>), the cancellation checkpoint (the
  function returns undefined, here \<open>None\<close>) and the build.
\<close>

definition launchArgsAfterWizard ::
    "JupyterType \<Rightarrow> locals \<Rightarrow> string + nat \<Rightarrow> bool \<Rightarrow> env \<Rightarrow> error + LaunchInfo option" where
  "launchArgsAfterWizard ty v probe isCancellationRequested en =
     (case probe of
        Inl m \<Rightarrow> Inl (PortfinderRejection m)
      | Inr prt \<Rightarrow>
          if isCancellationRequested then Inr None
          else (case buildLaunchInfo ty v prt en of
                  Inl e \<Rightarrow> Inl e
                | Inr r \<Rightarrow> Inr (Some r)))"

section \<open>jupyterLauncher.ts: the option list\<close>

text \<open>
  The quick-pick items, under the names of the constants that hold them. Items are
  compared by identity in the source, and their labels are pairwise different, so the
  comparisons by label after the list is accepted are the same membership tests.
\<close>

datatype item =
    passwordEnabled | randomToken | emptyToken | specificToken | localPathMapping
  | cwdPrompt | corsEnabled | openInBrowser | registerWithJupyterExtensionPrompt

text \<open>The \<^verbatim>\<open>picked\<close> property each item is created with; \<open>d\<close> is the option
  \<^verbatim>\<open>displayOptionToIntegrateWithJupyter\<close>, which sets it on \<open>openInBrowser\<close>.\<close>

fun picked :: "bool \<Rightarrow> item \<Rightarrow> bool" where
  "picked d passwordEnabled = False"
| "picked d randomToken = True"
| "picked d emptyToken = False"
| "picked d specificToken = False"
| "picked d localPathMapping = False"
| "picked d cwdPrompt = False"
| "picked d corsEnabled = True"
| "picked d openInBrowser = d"
| "picked d registerWithJupyterExtensionPrompt = True"

text \<open>The array \<^verbatim>\<open>items\<close>; \<open>randomToken\<close> is commented out of it in the source.\<close>

definition items :: "bool \<Rightarrow> item list" where
  "items d =
     [passwordEnabled, emptyToken, specificToken, corsEnabled, openInBrowser, cwdPrompt,
      localPathMapping]
     @ (if d then [registerWithJupyterExtensionPrompt] else [])"

text \<open>
  The state the selection handler works on: the variables of \<^verbatim>\<open>getLaunchArgs\<close> and,
  of the closure, \<^verbatim>\<open>ignoreNext\<close>, \<^verbatim>\<open>previousSelections\<close> and
  \<^verbatim>\<open>quickPick.selectedItems\<close>. The descriptions written on the items are display text
  that nothing reads back; they are left out.
\<close>

record wizard = locals +
  ignoreNext :: bool
  previousSelections :: "item list"
  selectedItems :: "item list"

text \<open>Lines 166 to 182; \<open>workspaceFolder\<close> is the path of the first workspace folder, if
  there is one, \<open>tmpDir\<close> is \<^verbatim>\<open>os.tmpdir()\<close>.\<close>

definition initialLocals :: "string option \<Rightarrow> string \<Rightarrow> locals" where
  "initialLocals workspaceFolder tmpDir =
     (let dir = (case workspaceFolder of Some f \<Rightarrow> f | None \<Rightarrow> tmpDir)
      in \<lparr>v_shouldOpenBrowser = False,
          v_registerWithJupyterExtension = True,
          v_cors = True,
          v_cwd = dir,
          v_useCustomWorkingDirectory = False,
          v_customCwd = None,
          v_jupyterExtensionWorkingDirectory = Some dir,
          v_token = \<lparr>tokenValue = [], isRandom = True, isEmpty = False\<rparr>,
          v_password = []\<rparr>)"

text \<open>Lines 243 to 254: the quick pick is created with the picked items selected.\<close>

definition initialWizard :: "bool \<Rightarrow> locals \<Rightarrow> wizard" where
  "initialWizard d v =
     locals.extend v
       (wizard.fields False (filter (picked d) (items d)) (filter (picked d) (items d)))"

text \<open>
  One firing of \<^verbatim>\<open>onDidChangeSelection\<close>: the new selection \<open>e\<close>, and what the host
  and the user answer if the handler asks: the value of \<^verbatim>\<open>window.showInputBox\<close>
  (\<open>None\<close> when the input box is dismissed), the paths of the folders of
  \<^verbatim>\<open>window.showOpenDialog\<close> (\<open>None\<close> when the dialog is dismissed) and the cancellation
  flag \<^verbatim>\<open>options.token?.isCancellationRequested\<close> at that moment.
\<close>

record event =
  selection :: "item list"
  inputBox :: "string option"
  openDialog :: "string list option"
  cancelRequested :: bool

definition capturePassword :: "event \<Rightarrow> string option" where
  "capturePassword ev = inputBox ev"

definition captureToken :: "event \<Rightarrow> string" where
  "captureToken ev = trim (case inputBox ev of None \<Rightarrow> [] | Some t \<Rightarrow> t)"

definition captureCwd :: "event \<Rightarrow> string option" where
  "captureCwd ev =
     (if cancelRequested ev then None
      else (case openDialog ev of
              None \<Rightarrow> None
            | Some [] \<Rightarrow> None
            | Some (f # _) \<Rightarrow> Some f))"

text \<open>\<^verbatim>\<open>Array.from(new Set(xs))\<close>: the first occurrence of each element, in order.\<close>

fun uniqFrom :: "'a list \<Rightarrow> 'a list \<Rightarrow> 'a list" where
  "uniqFrom seen [] = []"
| "uniqFrom seen (x # xs) =
     (if x \<in> set seen then uniqFrom seen xs else x # uniqFrom (seen @ [x]) xs)"

definition uniq :: "'a list \<Rightarrow> 'a list" where
  "uniq xs = uniqFrom [] xs"

text \<open>
  The setter of \<^verbatim>\<open>quickPick.selectedItems\<close> is the host's: it keeps, of the list it is
  given, the items that are items of the quick pick. \<^verbatim>\<open>quickPick.items\<close> is the array
  \<^verbatim>\<open>items\<close> from its creation on (the assignment in \<^verbatim>\<open>displayQuickPick\<close> gives it the
  same array again), so Random Token, which is not in that array, is never in the
  selection of the quick pick.
\<close>

definition setSelectedItems :: "bool \<Rightarrow> item list \<Rightarrow> wizard \<Rightarrow> wizard" where
  "setSelectedItems d sel w = w\<lparr>selectedItems := filter (\<lambda>i. i \<in> set (items d)) sel\<rparr>"

definition displayQuickPick :: "bool \<Rightarrow> wizard \<Rightarrow> wizard" where
  "displayQuickPick d w =
     (let p = uniq (previousSelections w)
      in setSelectedItems d p (w\<lparr>previousSelections := p\<rparr>))"

text \<open>The two tests on an item the handler makes: \<^verbatim>\<open>e.includes(i) &&
  !previousSelections.includes(i)\<close>, and the same the other way round.\<close>

definition newlySelected :: "item \<Rightarrow> item list \<Rightarrow> item list \<Rightarrow> bool" where
  "newlySelected i e prev = (i \<in> set e \<and> i \<notin> set prev)"

definition newlyDeselected :: "item \<Rightarrow> item list \<Rightarrow> item list \<Rightarrow> bool" where
  "newlyDeselected i e prev = (i \<notin> set e \<and> i \<in> set prev)"

text \<open>
  The handler, lines 261 to 387, branch by branch in the order of the source. The host
  has made \<open>e\<close> the current selection when it fires the event, so
  \<^verbatim>\<open>quickPick.selectedItems\<close> is \<open>e\<close> when the handler starts; each firing runs to its
  end before the next one starts. The firing that the host makes for a selection the
  handler has set is one more event of the sequence.
\<close>

definition onDidChangeSelection :: "bool \<Rightarrow> wizard \<Rightarrow> event \<Rightarrow> wizard" where
  "onDidChangeSelection d w0 ev =
     (let e = selection ev;
          w = w0\<lparr>selectedItems := e\<rparr>;
          prev = previousSelections w
      in
      if ignoreNext w then
        w\<lparr>previousSelections := selectedItems w, ignoreNext := False\<rparr>
      else if newlySelected passwordEnabled e prev then
        (let selectedPassword = capturePassword ev
         in displayQuickPick d
              (if truthy selectedPassword
               then w\<lparr>ignoreNext := True,
                      v_password := the selectedPassword,
                      previousSelections := prev @ [passwordEnabled]\<rparr>
               else w\<lparr>ignoreNext := True,
                      previousSelections := filter (\<lambda>i. i \<noteq> passwordEnabled) prev\<rparr>))
      else if newlySelected emptyToken e prev then
        displayQuickPick d
          (w\<lparr>v_token := (v_token w)\<lparr>isRandom := False, isEmpty := True\<rparr>,
             ignoreNext := True,
             previousSelections :=
               filter (\<lambda>i. i \<noteq> randomToken \<and> i \<noteq> specificToken) prev @ [emptyToken]\<rparr>)
      else if newlySelected specificToken e prev then
        (let capturedToken = captureToken ev
         in displayQuickPick d
              (if capturedToken \<noteq> []
               then w\<lparr>ignoreNext := True,
                      v_token := \<lparr>tokenValue = capturedToken, isRandom = False, isEmpty = False\<rparr>,
                      previousSelections :=
                        filter (\<lambda>i. i \<noteq> emptyToken \<and> i \<noteq> randomToken) prev @ [specificToken]\<rparr>
               else w\<lparr>ignoreNext := True,
                      v_token := (v_token w)\<lparr>isRandom := True, isEmpty := False\<rparr>,
                      previousSelections :=
                        filter (\<lambda>i. i \<noteq> emptyToken \<and> i \<noteq> specificToken) prev @ [randomToken]\<rparr>))
      else if newlySelected cwdPrompt e prev then
        (let capturedCwd = captureCwd ev
         in displayQuickPick d
              (if truthy capturedCwd
               then w\<lparr>ignoreNext := True,
                      v_customCwd := capturedCwd,
                      v_useCustomWorkingDirectory := True,
                      previousSelections := prev @ [cwdPrompt]\<rparr>
               else w\<lparr>ignoreNext := True,
                      v_useCustomWorkingDirectory := True,
                      previousSelections := filter (\<lambda>i. i \<noteq> cwdPrompt) prev\<rparr>))
      else if newlySelected localPathMapping e prev then
        (let mappedFolder = captureCwd ev
         in displayQuickPick d
              (if truthy mappedFolder
               then w\<lparr>ignoreNext := True,
                      v_jupyterExtensionWorkingDirectory := mappedFolder,
                      previousSelections := prev @ [localPathMapping]\<rparr>
               else w\<lparr>ignoreNext := True,
                      v_jupyterExtensionWorkingDirectory := Some (v_cwd w),
                      previousSelections := filter (\<lambda>i. i \<noteq> localPathMapping) prev\<rparr>))
      else if newlyDeselected cwdPrompt e prev then
        displayQuickPick d
          (w\<lparr>ignoreNext := True,
             v_useCustomWorkingDirectory := True,
             previousSelections := selectedItems w\<rparr>)
      else if emptyToken \<notin> set e \<and> randomToken \<notin> set e then
        (let w1 = setSelectedItems d
                    (filter (\<lambda>i. i \<noteq> emptyToken \<and> i \<noteq> randomToken) (selectedItems w)
                     @ [randomToken])
                    (w\<lparr>ignoreNext := True\<rparr>)
         in w1\<lparr>previousSelections := selectedItems w1\<rparr>)
      else
        w\<lparr>previousSelections := selectedItems w\<rparr>)"

text \<open>The states the option list can be in: the initial one and what any sequence of
  firings makes of it.\<close>

definition runEvents :: "bool \<Rightarrow> wizard \<Rightarrow> event list \<Rightarrow> wizard" where
  "runEvents d w evs = foldl (onDidChangeSelection d) w evs"

inductive reachable :: "bool \<Rightarrow> locals \<Rightarrow> wizard \<Rightarrow> bool" for d :: bool and v :: locals where
  initial: "reachable d v (initialWizard d v)"
| firing: "reachable d v w \<Longrightarrow> reachable d v (onDidChangeSelection d w ev)"

text \<open>
  Two readings of "the selected member of the token group": the token items in a
  selection list, and the mode that lines 431 to 435 resolve the flags of
  \<^verbatim>\<open>token\<close> to.
\<close>

definition tokenGroup :: "item list \<Rightarrow> item list" where
  "tokenGroup sel = filter (\<lambda>i. i = randomToken \<or> i = emptyToken \<or> i = specificToken) sel"

datatype tokenMode = ModeRandom | ModeEmpty | ModeSpecific

definition tokenModeOf :: "tokenVar \<Rightarrow> tokenMode" where
  "tokenModeOf t =
     (if isRandom t then ModeRandom else if isEmpty t then ModeEmpty else ModeSpecific)"

text \<open>The firing reaches the branch of line 295, which opens the token input box.\<close>

definition opensTokenPrompt :: "wizard \<Rightarrow> event \<Rightarrow> bool" where
  "opensTokenPrompt w ev =
     (\<not> ignoreNext w
      \<and> \<not> newlySelected passwordEnabled (selection ev) (previousSelections w)
      \<and> \<not> newlySelected emptyToken (selection ev) (previousSelections w)
      \<and> newlySelected specificToken (selection ev) (previousSelections w))"

text \<open>The firing reaches the test of line 380, no earlier branch having been taken.\<close>

definition reachesDefaultRule :: "wizard \<Rightarrow> event \<Rightarrow> bool" where
  "reachesDefaultRule w ev =
     (\<not> ignoreNext w
      \<and> \<not> newlySelected passwordEnabled (selection ev) (previousSelections w)
      \<and> \<not> newlySelected emptyToken (selection ev) (previousSelections w)
      \<and> \<not> newlySelected specificToken (selection ev) (previousSelections w)
      \<and> \<not> newlySelected cwdPrompt (selection ev) (previousSelections w)
      \<and> \<not> newlySelected localPathMapping (selection ev) (previousSelections w)
      \<and> \<not> newlyDeselected cwdPrompt (selection ev) (previousSelections w))"

text \<open>
  Lines 396 to 422, once the promise \<^verbatim>\<open>proceed\<close> has resolved: with \<open>True\<close> on
  acceptance, with \<open>False\<close> on the Back button. \<open>None\<close> is the return of undefined. (If
  the list is dismissed in another way the promise never resolves.)
\<close>

definition afterQuickPick :: "bool \<Rightarrow> wizard \<Rightarrow> bool \<Rightarrow> locals option" where
  "afterQuickPick d w proceed =
     (if \<not> proceed then None
      else
        (let selections = selectedItems w
         in if length (selectedItems w) = 0 then None
            else if length selections = 0 \<or> list_all (\<lambda>i. \<not> picked d i) selections then None
            else Some ((locals.truncate w)
                   \<lparr>v_shouldOpenBrowser := openInBrowser \<in> set selections,
                    v_cors := corsEnabled \<in> set selections,
                    v_password :=
                      (if passwordEnabled \<in> set selections then v_password w else []),
                    v_registerWithJupyterExtension :=
                      registerWithJupyterExtensionPrompt \<in> set selections,
                    v_jupyterExtensionWorkingDirectory :=
                      (if localPathMapping \<in> set selections
                          \<and> truthy (v_jupyterExtensionWorkingDirectory w)
                       then v_jupyterExtensionWorkingDirectory w else None)\<rparr>)))"

text \<open>
  \<^verbatim>\<open>getLaunchArgs\<close> as a whole: \<open>customize\<close> and \<open>d\<close> are the options of those names,
  \<open>evs\<close> the firings of the selection event before the promise resolves with \<open>proceed\<close>.
\<close>

definition getLaunchArgs ::
    "JupyterType \<Rightarrow> bool \<Rightarrow> bool \<Rightarrow> string option \<Rightarrow> string \<Rightarrow> event list \<Rightarrow> bool
       \<Rightarrow> string + nat \<Rightarrow> bool \<Rightarrow> env \<Rightarrow> error + LaunchInfo option" where
  "getLaunchArgs ty customize d workspaceFolder tmpDir evs proceed probe cancelled en =
     (let v0 = initialLocals workspaceFolder tmpDir
      in if customize
         then (case afterQuickPick d (runEvents d (initialWizard d v0) evs) proceed of
                 None \<Rightarrow> Inr None
               | Some v \<Rightarrow> launchArgsAfterWizard ty v probe cancelled en)
         else launchArgsAfterWizard ty v0 probe cancelled en)"

section \<open>jupyterIntegration.ts: what the three revisions share\<close>

text \<open>
  The repository holds three revisions of the integration module. They are told apart
  by a suffix: \<open>_cs\<close> is the revision that registers each server with
  \<^verbatim>\<open>collection.createServer\<close> (the first module of \<^verbatim>\<open>jupyterIntegration.ts\<close>),
  \<open>_up\<close> the revision that registers a URI provider (the second module of that file),
  \<open>_sp\<close> the revision that sets \<^verbatim>\<open>collection.serverProvider\<close> (the unnamed module).
\<close>

text \<open>A terminal of the host: its name and what \<^verbatim>\<open>await t.processId\<close> yields.\<close>

record Terminal =
  name :: string
  processId :: "nat option"

text \<open>A \<^verbatim>\<open>Uri\<close> of the host, known by the call that made it.\<close>

datatype Uri = Uri_parse string | Uri_file string

text \<open>
  \<^verbatim>\<open>IJupyterServerUri\<close> of the revisions \<open>_cs\<close> and \<open>_sp\<close> (prefix \<open>u_\<close>); they differ
  in the type \<open>'d\<close> of the mapped directory. A process id is a natural number; 0 is the
  number that counts as false.
\<close>

record 'd IJupyterServerUri =
  u_pid :: nat
  u_baseUrl :: Uri
  u_token :: string
  u_label :: string
  u_mappedRemoteNotebookDir :: "'d option"
  u_authorizationHeader :: "(string \<times> string) list option"

text \<open>What a registry entry disposes of: a terminal, the handle \<^verbatim>\<open>createServer\<close>
  returned for an id, or a launched server (whose \<^verbatim>\<open>dispose\<close> disposes its terminal).\<close>

datatype disposable =
    TerminalDisposable Terminal
  | ServerHandle string
  | LauncherServer JupyterServer

text \<open>\<^verbatim>\<open>Map.prototype.set\<close>, \<^verbatim>\<open>get\<close>, \<^verbatim>\<open>has\<close> and \<^verbatim>\<open>delete\<close> on an association list
  in insertion order.\<close>

definition mapSet :: "'k \<Rightarrow> 'v \<Rightarrow> ('k \<times> 'v) list \<Rightarrow> ('k \<times> 'v) list" where
  "mapSet k v m = AList.update k v m"

definition mapGet :: "('k \<times> 'v) list \<Rightarrow> 'k \<Rightarrow> 'v option" where
  "mapGet m k = map_of m k"

definition mapHas :: "('k \<times> 'v) list \<Rightarrow> 'k \<Rightarrow> bool" where
  "mapHas m k = (map_of m k \<noteq> None)"

definition mapDelete :: "'k \<Rightarrow> ('k \<times> 'v) list \<Rightarrow> ('k \<times> 'v) list" where
  "mapDelete k m = AList.delete k m"

text \<open>
  Lines 54 to 71 (59 to 76 of the unnamed module): the map from process id to terminal,
  filled from \<^verbatim>\<open>window.terminals\<close> in list order.
\<close>

definition terminalsByPidStep :: "(nat \<times> Terminal) list \<Rightarrow> Terminal \<Rightarrow> (nat \<times> Terminal) list" where
  "terminalsByPidStep m t =
     (if \<not> startsWith (name t) ''Jupyter Notebook at'' \<and> \<not> startsWith (name t) ''Jupyter Lab at''
      then m
      else (case processId t of
              None \<Rightarrow> m
            | Some p \<Rightarrow>
                if p = 0 then m
                else if mapGet m p \<noteq> Some t then mapSet p t m
                else m))"

definition terminalsByPid :: "Terminal list \<Rightarrow> (nat \<times> Terminal) list" where
  "terminalsByPid terminals = foldl terminalsByPidStep [] terminals"

text \<open>The test on the name of a terminal, lines 57 to 59, read positively.\<close>

definition jupyterNamed :: "Terminal \<Rightarrow> bool" where
  "jupyterNamed t =
     (startsWith (name t) ''Jupyter Notebook at'' \<or> startsWith (name t) ''Jupyter Lab at'')"

text \<open>\<^verbatim>\<open>OutputChannel.instance?.appendLine(line)\<close>; \<open>None\<close> is the unset instance.\<close>

definition appendLine :: "string \<Rightarrow> string list option \<Rightarrow> string list option" where
  "appendLine line out = map_option (\<lambda>ls. ls @ [line]) out"

section \<open>jupyterIntegration.ts, revision \<open>_cs\<close>\<close>

record entry_cs =
  serverUri_cs :: "string IJupyterServerUri"
  disposables_cs :: "disposable list"

text \<open>
  The state of the module and of its collaborators: the map \<^verbatim>\<open>servers\<close>, the list
  stored under \<^verbatim>\<open>"jupyterServers"\<close> in the memento (\<open>None\<close> is an element without a
  \<^verbatim>\<open>serverUri\<close>), the calls of \<^verbatim>\<open>collection.createServer\<close> as pairs of id and label,
  and the output channel. The stored list is read as values: what a callback assigns to
  the record it was given reaches neither the store nor the entries of the map.
\<close>

record state_cs =
  servers_cs :: "(string \<times> entry_cs) list"
  memento_cs :: "entry_cs option list"
  created_cs :: "(string \<times> string) list"
  output_cs :: "string list option"

definition storeJupyterServers_cs :: "entry_cs \<Rightarrow> state_cs \<Rightarrow> state_cs" where
  "storeJupyterServers_cs server s =
     s\<lparr>memento_cs :=
         map (map_option (\<lambda>x. x\<lparr>disposables_cs := []\<rparr>)) (memento_cs s @ [Some server])\<rparr>"

text \<open>Lines 116 to 149. The second component is the handle returned, \<open>None\<close> for
  undefined.\<close>

definition addJupyterServer_cs :: "JupyterServer \<Rightarrow> state_cs \<Rightarrow> state_cs \<times> disposable option" where
  "addJupyterServer_cs server s =
     (if mapHas (servers_cs s) (toString (pid server)) then
        (s\<lparr>output_cs :=
             appendLine (''[Warning]: Jupyter server already started for this workspace with pid ''
                           @ toString (pid server) @ ''.'') (output_cs s)\<rparr>,
         None)
      else
        (let jupyterServer =
               \<lparr>u_pid = pid server,
                u_baseUrl = Uri_parse (baseUrl server),
                u_token = token server,
                u_label = typeLabel (type server) @ '' '' @ baseUrl server,
                u_mappedRemoteNotebookDir = jupyterExtensionWorkingDirectory server,
                u_authorizationHeader = None\<rparr>;
             s1 = s\<lparr>created_cs :=
                      created_cs s
                      @ [(toString (pid server), ''Jupyter Notebook at '' @ baseUrl server)]\<rparr>;
             vsCodeServer = ServerHandle (toString (pid server));
             details = \<lparr>serverUri_cs = jupyterServer,
                        disposables_cs = [LauncherServer server, vsCodeServer]\<rparr>;
             s2 = storeJupyterServers_cs details s1
         in (s2\<lparr>servers_cs := mapSet (toString (pid server)) details (servers_cs s2)\<rparr>,
             Some vsCodeServer)))"

text \<open>Lines 78 to 96: the callback of \<^verbatim>\<open>forEach\<close> on one stored element.\<close>

definition restoreOne_cs :: "(nat \<times> Terminal) list \<Rightarrow> state_cs \<Rightarrow> entry_cs option \<Rightarrow> state_cs" where
  "restoreOne_cs byPid s stored =
     (case stored of
        None \<Rightarrow> s
      | Some server \<Rightarrow>
          if u_pid (serverUri_cs server) = 0 then s
          else if mapHas (servers_cs s) (toString (u_pid (serverUri_cs server))) then s
          else (case mapGet byPid (u_pid (serverUri_cs server)) of
                  None \<Rightarrow> s
                | Some terminal \<Rightarrow>
                    (let key = toString (u_pid (serverUri_cs server));
                         s1 = s\<lparr>created_cs :=
                                  created_cs s @ [(key, u_label (serverUri_cs server))]\<rparr>;
                         vscServer = ServerHandle key;
                         server' = server\<lparr>disposables_cs :=
                                             [TerminalDisposable terminal, vscServer]\<rparr>
                     in s1\<lparr>servers_cs := mapSet key server' (servers_cs s1)\<rparr>)))"

text \<open>Lines 50 to 97.\<close>

definition restoreJupyterServers_cs :: "Terminal list \<Rightarrow> state_cs \<Rightarrow> state_cs" where
  "restoreJupyterServers_cs terminals s =
     foldl (restoreOne_cs (terminalsByPid terminals)) s (memento_cs s)"

section \<open>The unnamed integration module, revision \<open>_sp\<close>\<close>

record entry_sp =
  serverUri_sp :: "Uri IJupyterServerUri"
  server_sp :: JupyterServer
  disposables_sp :: "disposable list"

text \<open>The state: as in revision \<open>_cs\<close>, with the number of calls of
  \<^verbatim>\<open>onDidChangeServers.fire()\<close> in place of the calls of \<^verbatim>\<open>createServer\<close>.\<close>

record state_sp =
  servers_sp :: "(string \<times> entry_sp) list"
  memento_sp :: "entry_sp option list"
  fired_sp :: nat
  output_sp :: "string list option"

text \<open>
  Two functions of the host that the restore calls: \<^verbatim>\<open>toString\<close> on a \<^verbatim>\<open>Uri\<close>, and
  the \<^verbatim>\<open>port\<close> of \<^verbatim>\<open>new URL(s)\<close>, \<open>None\<close> when the constructor throws. The port of
  a URL is a string of decimal digits or empty, on which \<^verbatim>\<open>parseInt\<close> without a radix
  is \<^verbatim>\<open>parseInt\<close> with radix 10.
\<close>

record host_sp =
  uriToString :: "Uri \<Rightarrow> string"
  urlPort :: "string \<Rightarrow> string option"

definition storeJupyterServers_sp :: "entry_sp \<Rightarrow> state_sp \<Rightarrow> state_sp" where
  "storeJupyterServers_sp server s =
     s\<lparr>memento_sp :=
         map (map_option (\<lambda>x. x\<lparr>disposables_sp := []\<rparr>)) (memento_sp s @ [Some server])\<rparr>"

text \<open>Lines 141 to 172 of the unnamed module.\<close>

definition addJupyterServer_sp :: "JupyterServer \<Rightarrow> state_sp \<Rightarrow> state_sp" where
  "addJupyterServer_sp server s =
     (if mapHas (servers_sp s) (toString (pid server)) then
        s\<lparr>output_sp :=
            appendLine (''[Warning]: Jupyter server already started for this workspace with pid ''
                          @ toString (pid server) @ ''.'') (output_sp s)\<rparr>
      else
        (let jupyterServer =
               \<lparr>u_pid = pid server,
                u_baseUrl = Uri_parse (baseUrl server),
                u_token = token server,
                u_label = typeLabel (type server) @ '' '' @ baseUrl server,
                u_mappedRemoteNotebookDir =
                  (if truthy (jupyterExtensionWorkingDirectory server)
                   then Some (Uri_file (the (jupyterExtensionWorkingDirectory server)))
                   else None),
                u_authorizationHeader = None\<rparr>;
             details = \<lparr>serverUri_sp = jupyterServer,
                        server_sp = server,
                        disposables_sp = [LauncherServer server]\<rparr>;
             s1 = storeJupyterServers_sp details s;
             s2 = s1\<lparr>servers_sp := mapSet (toString (pid server)) details (servers_sp s1)\<rparr>
         in s2\<lparr>fired_sp := fired_sp s2 + 1\<rparr>))"

text \<open>Lines 84 to 120 of the unnamed module: the callback of \<^verbatim>\<open>forEach\<close> on one stored
  element; \<open>Inl\<close> when it throws. \<^verbatim>\<open>Uri.parse\<close> is given the stored base URL, which it
  reads as a string.\<close>

definition restoreOne_sp ::
    "host_sp \<Rightarrow> (nat \<times> Terminal) list \<Rightarrow> state_sp \<Rightarrow> entry_sp option \<Rightarrow> error + state_sp" where
  "restoreOne_sp h byPid s stored =
     (case stored of
        None \<Rightarrow> Inr s
      | Some server0 \<Rightarrow>
          if u_pid (serverUri_sp server0) = 0 then Inr s
          else
            (let server = server0\<lparr>serverUri_sp :=
                            (serverUri_sp server0)
                              \<lparr>u_baseUrl :=
                                 Uri_parse (uriToString h (u_baseUrl (serverUri_sp server0)))\<rparr>\<rparr>;
                 su = serverUri_sp server;
                 key = toString (u_pid su)
             in if mapHas (servers_sp s) key then Inr s
                else (case mapGet byPid (u_pid su) of
                        None \<Rightarrow> Inr s
                      | Some terminal \<Rightarrow>
                          (case urlPort h (uriToString h (u_baseUrl su)) of
                             None \<Rightarrow> Inl (TypeError ''Invalid URL'')
                           | Some portString \<Rightarrow>
                               (let server' = server
                                      \<lparr>server_sp :=
                                         \<lparr>shellArgs = [],
                                          token = u_token su,
                                          port = parseInt portString,
                                          password = [],
                                          registerWithJupyterExtension = True,
                                          cwd = [],
                                          jupyterExtensionWorkingDirectory =
                                            map_option (uriToString h)
                                              (u_mappedRemoteNotebookDir su),
                                          pid = u_pid su,
                                          type = (if startsWith (u_label su) ''Jupyter Notebook''
                                                  then JupyterNotebook else JupyterLab),
                                          baseUrl = uriToString h (u_baseUrl su)\<rparr>,
                                       disposables_sp := [TerminalDisposable terminal]\<rparr>
                                in Inr (s\<lparr>servers_sp := mapSet key server' (servers_sp s)\<rparr>))))))"

text \<open>\<^verbatim>\<open>Array.prototype.forEach\<close> with a callback that may throw: the loop stops at the
  first throw, and what the earlier calls did stays done.\<close>

fun forEachThrowing :: "('s \<Rightarrow> 'a \<Rightarrow> error + 's) \<Rightarrow> 's \<Rightarrow> 'a list \<Rightarrow> 's \<times> error option" where
  "forEachThrowing f s [] = (s, None)"
| "forEachThrowing f s (x # xs) =
     (case f s x of
        Inl e \<Rightarrow> (s, Some e)
      | Inr s' \<Rightarrow> forEachThrowing f s' xs)"

text \<open>Lines 55 to 122 of the unnamed module: the final state and the error the promise is
  rejected with, if any; the event fires when the loop has come to its end.\<close>

definition restoreJupyterServers_sp ::
    "host_sp \<Rightarrow> Terminal list \<Rightarrow> state_sp \<Rightarrow> state_sp \<times> error option" where
  "restoreJupyterServers_sp h terminals s =
     (case forEachThrowing (restoreOne_sp h (terminalsByPid terminals)) s (memento_sp s) of
        (s', Some e) \<Rightarrow> (s', Some e)
      | (s', None) \<Rightarrow> (s'\<lparr>fired_sp := fired_sp s' + 1\<rparr>, None))"

section \<open>jupyterIntegration.ts, revision \<open>_up\<close>\<close>

text \<open>\<^verbatim>\<open>IJupyterServerUri\<close> of this revision (prefix \<open>p_\<close>); its \<^verbatim>\<open>dispose\<close> calls the
  \<^verbatim>\<open>dispose\<close> of the launched server.\<close>

record IJupyterServerUri_up =
  p_baseUrl :: string
  p_token :: string
  p_displayName :: string
  p_mappedRemoteNotebookDir :: "string option"
  p_authorizationHeader :: "(string \<times> string) list option"

record entry_up =
  serverUri_up :: IJupyterServerUri_up
  serverInfo_up :: JupyterServer

text \<open>
  The state: the map \<^verbatim>\<open>servers\<close> (keyed by process id, a number), the stored list, the
  number of calls of \<^verbatim>\<open>onDidChangeHandles.fire()\<close>, the process ids of the servers whose
  \<^verbatim>\<open>dispose\<close> was called, in order, and the output channel.
\<close>

record state_up =
  servers_up :: "(nat \<times> entry_up) list"
  memento_up :: "entry_up option list"
  fired_up :: nat
  disposed_up :: "nat list"
  output_up :: "string list option"

text \<open>A look-up with a number that may be NaN or negative: the keys are process ids.\<close>

definition getNumber :: "(nat \<times> 'v) list \<Rightarrow> int option \<Rightarrow> 'v option" where
  "getNumber m k =
     (case k of None \<Rightarrow> None | Some i \<Rightarrow> if i < 0 then None else mapGet m (nat i))"

definition hasNumber :: "(nat \<times> 'v) list \<Rightarrow> int option \<Rightarrow> bool" where
  "hasNumber m k =
     (case k of None \<Rightarrow> False | Some i \<Rightarrow> if i < 0 then False else mapHas m (nat i))"

definition deleteNumber :: "int option \<Rightarrow> (nat \<times> 'v) list \<Rightarrow> (nat \<times> 'v) list" where
  "deleteNumber k m =
     (case k of None \<Rightarrow> m | Some i \<Rightarrow> if i < 0 then m else mapDelete (nat i) m)"

definition storeJupyterServers_up :: "entry_up \<Rightarrow> state_up \<Rightarrow> state_up" where
  "storeJupyterServers_up server s = s\<lparr>memento_up := memento_up s @ [Some server]\<rparr>"

text \<open>Lines 296 to 322.\<close>

definition addJupyterServer_up :: "JupyterServer \<Rightarrow> state_up \<Rightarrow> state_up" where
  "addJupyterServer_up server s =
     (if mapHas (servers_up s) (pid server) then
        s\<lparr>output_up :=
            appendLine
              (''[Warning]: Jupyter server already started for this workspace with information ''
                 @ toString (pid server) @ ''.'') (output_up s)\<rparr>
      else
        (let jupyterServer =
               \<lparr>p_baseUrl = baseUrl server,
                p_token = token server,
                p_displayName = typeLabel (type server) @ '' '' @ baseUrl server,
                p_mappedRemoteNotebookDir = jupyterExtensionWorkingDirectory server,
                p_authorizationHeader = None\<rparr>;
             details = \<lparr>serverUri_up = jupyterServer, serverInfo_up = server\<rparr>;
             s1 = storeJupyterServers_up details s;
             s2 = s1\<lparr>servers_up := mapSet (pid server) details (servers_up s1)\<rparr>
         in s2\<lparr>fired_up := fired_up s2 + 1\<rparr>))"

text \<open>Lines 224 to 236; the argument is what \<^verbatim>\<open>await terminal.processId\<close> yields.\<close>

definition shutdownJupyterServer_up :: "Terminal \<Rightarrow> state_up \<Rightarrow> state_up" where
  "shutdownJupyterServer_up terminal s =
     (case processId terminal of
        None \<Rightarrow> s
      | Some p \<Rightarrow>
          if p = 0 then s
          else (case mapGet (servers_up s) p of
                  None \<Rightarrow> s
                | Some server \<Rightarrow>
                    s\<lparr>disposed_up := disposed_up s @ [pid (serverInfo_up server)],
                      servers_up := mapDelete p (servers_up s),
                      fired_up := fired_up s + 1\<rparr>))"

text \<open>Lines 421 to 425.\<close>

definition removeHandle_up :: "string \<Rightarrow> state_up \<Rightarrow> state_up" where
  "removeHandle_up handle s =
     (let s1 = (case getNumber (servers_up s) (parseInt handle) of
                  None \<Rightarrow> s
                | Some server \<Rightarrow> s\<lparr>disposed_up := disposed_up s @ [pid (serverInfo_up server)]\<rparr>);
          s2 = s1\<lparr>servers_up := deleteNumber (parseInt handle) (servers_up s1)\<rparr>
      in s2\<lparr>fired_up := fired_up s2 + 1\<rparr>)"

text \<open>Lines 334 to 341.\<close>

definition getServerUri_up :: "string \<Rightarrow> state_up \<Rightarrow> error + IJupyterServerUri_up" where
  "getServerUri_up handle s =
     (if \<not> hasNumber (servers_up s) (parseInt handle) then Inl (Error ''Invalid handle'')
      else Inr (serverUri_up (the (getNumber (servers_up s) (parseInt handle)))))"

text \<open>Lines 343 to 347.\<close>

definition getHandles_up :: "state_up \<Rightarrow> string list" where
  "getHandles_up s = map (\<lambda>k. toString k) (map fst (servers_up s))"

section \<open>Example inputs\<close>

text \<open>A clock value, two salts' worth of random bytes and a stand-in digest.\<close>

definition exampleEnv :: env where
  "exampleEnv =
     \<lparr>now = 1700000000000,
      randomBytes1 = [1, 35, 69, 103, 137, 171, 205, 239],
      randomBytes2 = [254, 220, 186, 152, 118, 84, 50, 16],
      sha1hex = (\<lambda>s. replicate 40 (CHR ''0''))\<rparr>"

text \<open>The variables as they are without customisation, in a workspace.\<close>

definition exampleLocals :: locals where
  "exampleLocals = initialLocals (Some ''/home/user/project'') ''/tmp''"

text \<open>Token mode Empty, cross-origin access allowed, no browser.\<close>

definition emptyTokenLocals :: locals where
  "emptyTokenLocals =
     exampleLocals\<lparr>v_token := \<lparr>tokenValue = [], isRandom = False, isEmpty = True\<rparr>\<rparr>"

text \<open>
  The option list as it opens, and the firings of five things a user does: ticking
  Empty Token (the host fires once for the click and once for the selection the handler
  then sets), ticking Specific Token and dismissing the input box, ticking Specific Token
  and entering two spaces, ticking Specific Token and entering a value, and unticking
  everything but the CORS item.
\<close>

definition exampleWizard :: wizard where
  "exampleWizard = initialWizard False exampleLocals"

definition selectEmpty :: event where
  "selectEmpty = \<lparr>selection = [corsEnabled, emptyToken], inputBox = None, openDialog = None,
                  cancelRequested = False\<rparr>"

definition selectSpecificCancelled :: event where
  "selectSpecificCancelled =
     \<lparr>selection = [corsEnabled, emptyToken, specificToken], inputBox = None, openDialog = None,
      cancelRequested = False\<rparr>"



definition selectOnlyCors :: event where
  "selectOnlyCors = \<lparr>selection = [corsEnabled], inputBox = None, openDialog = None,
                     cancelRequested = False\<rparr>"

text \<open>Empty Token has been ticked; and then unticked again.\<close>

definition emptyChosen :: wizard where
  "emptyChosen = runEvents False exampleWizard [selectEmpty, selectEmpty]"

definition emptyUnticked :: wizard where
  "emptyUnticked = onDidChangeSelection False emptyChosen selectOnlyCors"


text \<open>Two launched servers, the terminals of a window in which only the second one
  runs under the name the launcher gave it, and a host for revision \<open>_sp\<close> that knows
  the two URLs.\<close>

definition exampleServer :: JupyterServer where
  "exampleServer =
     \<lparr>shellArgs = [], token = ''abc'', port = Some 8888, password = [],
      registerWithJupyterExtension = True, cwd = ''/home/user/project'',
      jupyterExtensionWorkingDirectory = None,
      pid = 4242, type = JupyterNotebook, baseUrl = ''http://localhost:8888/''\<rparr>"

definition labServer :: JupyterServer where
  "labServer =
     \<lparr>shellArgs = [], token = ''xyz'', port = Some 8889, password = [],
      registerWithJupyterExtension = True, cwd = ''/home/user/project'',
      jupyterExtensionWorkingDirectory = None,
      pid = 5000, type = JupyterLab, baseUrl = ''http://localhost:8889/''\<rparr>"

definition exampleTerminals :: "Terminal list" where
  "exampleTerminals =
     [\<lparr>name = ''bash'', processId = Some 4242\<rparr>,
      \<lparr>name = ''Jupyter Lab at 8889'', processId = Some 5000\<rparr>]"

definition exampleHost :: host_sp where
  "exampleHost =
     \<lparr>uriToString = (\<lambda>u. case u of Uri_parse s \<Rightarrow> s | Uri_file s \<Rightarrow> ''file://'' @ s),
      urlPort = (\<lambda>s. if s = ''http://localhost:8888/'' then Some ''8888''
                      else if s = ''http://localhost:8889/'' then Some ''8889''
                      else None)\<rparr>"

text \<open>The states of the three revisions when the extension starts with nothing stored.\<close>

definition emptyState_cs :: state_cs where
  "emptyState_cs = \<lparr>servers_cs = [], memento_cs = [], created_cs = [], output_cs = Some []\<rparr>"

definition emptyState_sp :: state_sp where
  "emptyState_sp = \<lparr>servers_sp = [], memento_sp = [], fired_sp = 0, output_sp = Some []\<rparr>"

definition emptyState_up :: state_up where
  "emptyState_up =
     \<lparr>servers_up = [], memento_up = [], fired_up = 0, disposed_up = [], output_up = Some []\<rparr>"

text \<open>Both servers have been added; and the same after a restart of the client, when the
  map is empty again and the stored list is what it was.\<close>

definition running_cs :: state_cs where
  "running_cs = fst (addJupyterServer_cs labServer (fst (addJupyterServer_cs exampleServer emptyState_cs)))"

definition restarted_cs :: state_cs where
  "restarted_cs = emptyState_cs\<lparr>memento_cs := memento_cs running_cs\<rparr>"

definition running_sp :: state_sp where
  "running_sp = addJupyterServer_sp labServer (addJupyterServer_sp exampleServer emptyState_sp)"

definition restarted_sp :: state_sp where
  "restarted_sp = emptyState_sp\<lparr>memento_sp := memento_sp running_sp\<rparr>"

definition running_up :: state_up where
  "running_up = addJupyterServer_up exampleServer emptyState_up"

section \<open>Properties of the string functions\<close>

lemma digitValue_digitChar: "d < 10 \<Longrightarrow> digitValue (digitChar d) = d"
proof -
  assume "d < 10"
  then have "d \<in> {0,1,2,3,4,5,6,7,8,9::nat}" by auto
  then show ?thesis
    by (auto simp: digitValue_def digitChar_def)
qed

lemma isDigit_digitChar: "d < 10 \<Longrightarrow> isDigit (digitChar d)"
proof -
  assume "d < 10"
  then have "d \<in> {0,1,2,3,4,5,6,7,8,9::nat}" by auto
  then show ?thesis
    by (auto simp: isDigit_def digitChar_def)
qed

lemma not_isWhiteSpace_digit: "isDigit c \<Longrightarrow> \<not> isWhiteSpace c"
  by (auto simp: isDigit_def isWhiteSpace_def)

lemma digit_not_sign: "isDigit c \<Longrightarrow> c \<noteq> CHR ''+'' \<and> c \<noteq> CHR ''-''"
  by (auto simp: isDigit_def)

lemma toString_digits: "list_all isDigit (toString n)"
proof (induction n rule: toString.induct)
  case (1 n)
  show ?case
  proof (cases "n < 10")
    case True
    then show ?thesis by (simp add: toString.simps [of n] isDigit_digitChar)
  next
    case False
    with 1 show ?thesis
      by (simp add: toString.simps [of n] isDigit_digitChar)
  qed
qed

lemma toString_nonempty: "toString n \<noteq> []"
  by (simp add: toString.simps [of n])

lemma digitsValue_snoc: "digitsValue (z @ [c]) = 10 * digitsValue z + digitValue c"
  by (simp add: digitsValue_def)

lemma digitsValue_toString: "digitsValue (toString n) = n"
proof (induction n rule: toString.induct)
  case (1 n)
  show ?case
  proof (cases "n < 10")
    case True
    then show ?thesis
      by (simp add: toString.simps [of n] digitsValue_def digitValue_digitChar)
  next
    case False
    with 1 have "digitsValue (toString (n div 10)) = n div 10" by simp
    with False show ?thesis
      by (simp add: toString.simps [of n] digitsValue_snoc digitValue_digitChar)
  qed
qed

lemma toString_inj: "toString m = toString n \<Longrightarrow> m = n"
  by (metis digitsValue_toString)

lemma hd_toString_digit: "isDigit (hd (toString n))"
  using toString_digits [of n] toString_nonempty [of n]
  by (cases "toString n") auto

lemma takeWhile_all: "list_all P xs \<Longrightarrow> takeWhile P xs = xs"
  by (induction xs) auto

lemma dropWhile_none: "xs \<noteq> [] \<Longrightarrow> \<not> P (hd xs) \<Longrightarrow> dropWhile P xs = xs"
  by (cases xs) auto

lemma parseInt_toString: "parseInt (toString n) = Some (int n)"
proof -
  have ne: "toString n \<noteq> []" by (rule toString_nonempty)
  have d: "isDigit (hd (toString n))" by (rule hd_toString_digit)
  have w: "dropWhile isWhiteSpace (toString n) = toString n"
    using ne d by (simp add: dropWhile_none not_isWhiteSpace_digit)
  have s: "hd (toString n) \<noteq> CHR ''+''" "hd (toString n) \<noteq> CHR ''-''"
    using digit_not_sign [OF d] by simp_all
  have t: "takeWhile isDigit (toString n) = toString n"
    by (simp add: takeWhile_all toString_digits)
  show ?thesis
    by (simp add: parseInt_def Let_def w s t ne digitsValue_toString)
qed

lemma trim_Nil: "trim [] = []"
  by (simp add: trim_def)


lemma trim_no_space: "s \<noteq> [] \<Longrightarrow> \<not> isWhiteSpace (hd s) \<Longrightarrow> \<not> isWhiteSpace (last s) \<Longrightarrow> trim s = s"
  by (simp add: trim_def dropWhile_none hd_rev)

lemma trim_toString: "trim (toString n) = toString n"
proof -
  have "toString n \<noteq> []" by (rule toString_nonempty)
  moreover have "\<not> isWhiteSpace (hd (toString n))"
    by (simp add: hd_toString_digit not_isWhiteSpace_digit)
  moreover have "isDigit (last (toString n))"
    using toString_digits [of n] toString_nonempty [of n]
    by (simp add: list_all_iff)
  ultimately show ?thesis
    by (simp add: trim_no_space not_isWhiteSpace_digit)
qed

lemma dropWhile_all_Nil: "(\<forall>x\<in>set (dropWhile P xs). P x) \<longleftrightarrow> dropWhile P xs = []"
proof
  assume h: "\<forall>x\<in>set (dropWhile P xs). P x"
  show "dropWhile P xs = []"
  proof (rule ccontr)
    assume ne: "dropWhile P xs \<noteq> []"
    then have "\<not> P (hd (dropWhile P xs))" by (rule hd_dropWhile)
    moreover from ne have "hd (dropWhile P xs) \<in> set (dropWhile P xs)" by simp
    ultimately show False using h by blast
  qed
qed (auto dest: set_dropWhileD)

lemma trim_blank_iff: "trim s = [] \<longleftrightarrow> list_all isWhiteSpace s"
proof -
  have "trim s = [] \<longleftrightarrow> (\<forall>x\<in>set (dropWhile isWhiteSpace s). isWhiteSpace x)"
    by (simp add: trim_def)
  also have "\<dots> \<longleftrightarrow> dropWhile isWhiteSpace s = []"
    by (rule dropWhile_all_Nil)
  also have "\<dots> \<longleftrightarrow> list_all isWhiteSpace s"
    by (simp add: list_all_iff)
  finally show ?thesis .
qed

section \<open>The argument vector\<close>

lemma launchArgsAfterWizard_Some:
  "launchArgsAfterWizard ty v probe c en = Inr (Some r) \<Longrightarrow>
     \<exists>prt. probe = Inr prt \<and> \<not> c \<and> buildLaunchInfo ty v prt en = Inr r"
  by (auto simp: launchArgsAfterWizard_def split: sum.splits if_splits)

lemma buildLaunchInfo_Inr:
  "buildLaunchInfo ty v prt en = Inr r \<Longrightarrow>
     \<exists>tk. materializeToken (now en) (v_token v) = Inr tk \<and>
          shellArgs r = buildShellArgs ty v (tokenValue tk) prt en \<and>
          token r = tokenValue tk"
  by (auto simp: buildLaunchInfo_def split: sum.splits)

text \<open>
  Claim C1. Whenever launch parameters are returned for a configuration whose default
  working directory is a non-empty path, the argument vector is, after the module
  selection \<open>-m jupyter\<close>, in this order: the subcommand \<open>lab\<close> or \<open>notebook\<close>; then
  \<open>--no-browser\<close> exactly when the browser is not to be opened; then the two
  allow-origin flags, each followed by \<open>*\<close>, exactly when cross-origin access is enabled;
  then the two token flags, each followed by the trimmed token; then the two password
  flags, each followed by the empty string when the password is blank and by a salted
  hash otherwise; then \<open>--notebook-dir\<close> and the directory (the custom one if one was
  captured and is in use, else the default); and last \<open>--port\<close> and the probed port.
\<close>

theorem shellArgs_fixed_order:
  assumes "launchArgsAfterWizard ty v (Inr prt) c en = Inr (Some r)"
    and "v_cwd v \<noteq> []"
  shows "shellArgs r =
      [''-m'', ''jupyter'']
      @ [if ty = JupyterLab then ''lab'' else ''notebook'']
      @ (if v_shouldOpenBrowser v then [] else [''--no-browser''])
      @ (if v_cors v
         then [''--NotebookApp.allow_origin'', ''*'', ''--ServerApp.allow_origin'', ''*'']
         else [])
      @ [''--NotebookApp.token'', trim (token r), ''--ServerApp.token'', trim (token r)]
      @ [''--NotebookApp.password'',
         (if trim (v_password v) = [] then []
          else generateHashedPassword (sha1hex en) (randomBytes1 en) (v_password v)),
         ''--ServerApp.password'',
         (if trim (v_password v) = [] then []
          else generateHashedPassword (sha1hex en) (randomBytes2 en) (v_password v))]
      @ [''--notebook-dir'',
         (if truthy (v_customCwd v) \<and> v_useCustomWorkingDirectory v
          then the (v_customCwd v) else v_cwd v)]
      @ [''--port'', toString prt]"
proof -
  from assms(1) have "buildLaunchInfo ty v prt en = Inr r"
    by (auto dest: launchArgsAfterWizard_Some)
  then obtain tk :: tokenVar where "shellArgs r = buildShellArgs ty v (tokenValue tk) prt en"
    and "token r = tokenValue tk"
    using buildLaunchInfo_Inr by blast
  with assms(2) show ?thesis
    by (simp add: buildShellArgs_def Let_def)
qed

theorem shellArgs_fixed_order_witness:
  "launchArgsAfterWizard JupyterNotebook emptyTokenLocals (Inr 8888) False exampleEnv
     = Inr (Some \<lparr>shellArgs =
                    [''-m'', ''jupyter'', ''notebook'', ''--no-browser'',
                     ''--NotebookApp.allow_origin'', ''*'', ''--ServerApp.allow_origin'', ''*'',
                     ''--NotebookApp.token'', [], ''--ServerApp.token'', [],
                     ''--NotebookApp.password'', [], ''--ServerApp.password'', [],
                     ''--notebook-dir'', ''/home/user/project'', ''--port'', ''8888''],
                  token = [], port = Some 8888, password = [],
                  registerWithJupyterExtension = True, cwd = ''/home/user/project'',
                  jupyterExtensionWorkingDirectory = Some ''/home/user/project''\<rparr>)
   \<and> v_cwd emptyTokenLocals \<noteq> []
   \<and> (\<exists>r. launchArgsAfterWizard JupyterNotebook emptyTokenLocals (Inr 8888) False exampleEnv
            = Inr (Some r)
          \<and> shellArgs r =
              [''-m'', ''jupyter'', ''notebook'', ''--no-browser'',
               ''--NotebookApp.allow_origin'', ''*'', ''--ServerApp.allow_origin'', ''*'',
               ''--NotebookApp.token'', trim (token r), ''--ServerApp.token'', trim (token r),
               ''--NotebookApp.password'', [], ''--ServerApp.password'', [],
               ''--notebook-dir'', ''/home/user/project'', ''--port'', toString 8888])"
proof -
  have t: "toString 8888 = ''8888''"
    by (simp add: toString.simps digitChar_def)
  have run: "launchArgsAfterWizard JupyterNotebook emptyTokenLocals (Inr 8888) False exampleEnv
     = Inr (Some \<lparr>shellArgs =
                    [''-m'', ''jupyter'', ''notebook'', ''--no-browser'',
                     ''--NotebookApp.allow_origin'', ''*'', ''--ServerApp.allow_origin'', ''*'',
                     ''--NotebookApp.token'', [], ''--ServerApp.token'', [],
                     ''--NotebookApp.password'', [], ''--ServerApp.password'', [],
                     ''--notebook-dir'', ''/home/user/project'', ''--port'', ''8888''],
                  token = [], port = Some 8888, password = [],
                  registerWithJupyterExtension = True, cwd = ''/home/user/project'',
                  jupyterExtensionWorkingDirectory = Some ''/home/user/project''\<rparr>)"
    by (simp add: launchArgsAfterWizard_def buildLaunchInfo_def materializeToken_def
          buildShellArgs_def emptyTokenLocals_def exampleLocals_def initialLocals_def
          exampleEnv_def trim_def t Let_def)
  have cwd: "v_cwd emptyTokenLocals \<noteq> []"
    by (simp add: emptyTokenLocals_def exampleLocals_def initialLocals_def Let_def)
  have cfg: "\<not> v_shouldOpenBrowser emptyTokenLocals" "v_cors emptyTokenLocals"
    "trim (v_password emptyTokenLocals) = []" "\<not> truthy (v_customCwd emptyTokenLocals)"
    "v_cwd emptyTokenLocals = ''/home/user/project''"
    by (simp_all add: emptyTokenLocals_def exampleLocals_def initialLocals_def trim_def Let_def)
  from shellArgs_fixed_order [OF run cwd] cfg
  have "shellArgs \<lparr>shellArgs =
                    [''-m'', ''jupyter'', ''notebook'', ''--no-browser'',
                     ''--NotebookApp.allow_origin'', ''*'', ''--ServerApp.allow_origin'', ''*'',
                     ''--NotebookApp.token'', [], ''--ServerApp.token'', [],
                     ''--NotebookApp.password'', [], ''--ServerApp.password'', [],
                     ''--notebook-dir'', ''/home/user/project'', ''--port'', ''8888''],
                  token = [], port = Some 8888, password = [],
                  registerWithJupyterExtension = True, cwd = ''/home/user/project'',
                  jupyterExtensionWorkingDirectory = Some ''/home/user/project''\<rparr> =
              [''-m'', ''jupyter'', ''notebook'', ''--no-browser'',
               ''--NotebookApp.allow_origin'', ''*'', ''--ServerApp.allow_origin'', ''*'',
               ''--NotebookApp.token'', trim [], ''--ServerApp.token'', trim [],
               ''--NotebookApp.password'', [], ''--ServerApp.password'', [],
               ''--notebook-dir'', ''/home/user/project'', ''--port'', toString 8888]"
    by simp
  with run cwd show ?thesis by simp
qed

section \<open>The option list: selections and token flags\<close>

lemma uniqFrom_set: "set (uniqFrom seen xs) = set xs - set seen"
  by (induction xs arbitrary: seen) auto

lemma uniqFrom_distinct: "distinct (uniqFrom seen xs)"
  by (induction xs arbitrary: seen) (auto simp: uniqFrom_set)

lemma set_uniq: "set (uniq xs) = set xs"
  by (simp add: uniq_def uniqFrom_set)

lemma distinct_uniq: "distinct (uniq xs)"
  by (simp add: uniq_def uniqFrom_distinct)

lemma filter_single:
  assumes d: "distinct ys" and m: "a \<in> set ys" and p: "P a"
    and u: "\<forall>x\<in>set ys. P x \<longrightarrow> x = a"
  shows "filter P ys = [a]"
proof -
  from m obtain us vs where ys: "ys = us @ a # vs"
    by (meson split_list)
  from d ys have n: "a \<notin> set us" "a \<notin> set vs" by simp_all
  have "\<forall>x\<in>set us. \<not> P x"
  proof
    fix x assume x: "x \<in> set us"
    with ys have "x \<in> set ys" by simp
    with u have "P x \<longrightarrow> x = a" by blast
    with x n show "\<not> P x" by blast
  qed
  then have fu: "filter P us = []" by (simp add: filter_empty_conv)
  have "\<forall>x\<in>set vs. \<not> P x"
  proof
    fix x assume x: "x \<in> set vs"
    with ys have "x \<in> set ys" by simp
    with u have "P x \<longrightarrow> x = a" by blast
    with x n show "\<not> P x" by blast
  qed
  then have fv: "filter P vs = []" by (simp add: filter_empty_conv)
  show ?thesis by (simp add: ys fu fv p)
qed

lemma tokenGroup_uniq_random:
  assumes "randomToken \<in> set zs" "emptyToken \<notin> set zs" "specificToken \<notin> set zs"
  shows "tokenGroup (uniq zs) = [randomToken]"
  unfolding tokenGroup_def
proof (rule filter_single)
  show "distinct (uniq zs)" by (rule distinct_uniq)
  show "randomToken \<in> set (uniq zs)" using assms by (simp add: set_uniq)
  show "randomToken = randomToken \<or> randomToken = emptyToken \<or> randomToken = specificToken"
    by simp
  show "\<forall>x\<in>set (uniq zs). (x = randomToken \<or> x = emptyToken \<or> x = specificToken) \<longrightarrow> x = randomToken"
    using assms by (auto simp: set_uniq)
qed

text \<open>Random Token is no item of the list, whatever the options; the other two token
  items are.\<close>

lemma randomToken_no_item: "randomToken \<notin> set (items d)"
  by (simp add: items_def)

lemma token_items: "emptyToken \<in> set (items d) \<and> specificToken \<in> set (items d)"
  by (simp add: items_def)

lemma tokenGroup_shown:
  assumes "emptyToken \<notin> set xs" "specificToken \<notin> set xs"
  shows "tokenGroup (filter (\<lambda>i. i \<in> set (items d)) xs) = []"
proof -
  have "\<And>x. x \<in> set xs \<Longrightarrow> x \<in> set (items d) \<Longrightarrow>
          \<not> (x = randomToken \<or> x = emptyToken \<or> x = specificToken)"
    using assms randomToken_no_item [of d] by auto
  then show ?thesis
    by (simp add: tokenGroup_def filter_empty_conv)
qed

lemma selectedItems_displayQuickPick:
  "selectedItems (displayQuickPick d w)
     = filter (\<lambda>i. i \<in> set (items d)) (uniq (previousSelections w))"
  by (simp add: displayQuickPick_def setSelectedItems_def Let_def)

lemma previousSelections_displayQuickPick:
  "previousSelections (displayQuickPick d w) = uniq (previousSelections w)"
  by (simp add: displayQuickPick_def setSelectedItems_def Let_def)

lemma fields_displayQuickPick:
  "v_token (displayQuickPick d w) = v_token w \<and> ignoreNext (displayQuickPick d w) = ignoreNext w"
  by (simp add: displayQuickPick_def setSelectedItems_def Let_def)

lemma randomToken_never_shown:
  "randomToken \<notin> set (selectedItems (displayQuickPick d w))"
  by (simp add: selectedItems_displayQuickPick randomToken_no_item)

text \<open>The handler, one branch at a time.\<close>

lemma handler_ignoreNext:
  "ignoreNext w \<Longrightarrow>
   onDidChangeSelection d w ev =
     w\<lparr>selectedItems := selection ev, previousSelections := selection ev, ignoreNext := False\<rparr>"
  by (simp add: onDidChangeSelection_def Let_def)

lemma handler_empty:
  "\<not> ignoreNext w \<Longrightarrow>
   \<not> newlySelected passwordEnabled (selection ev) (previousSelections w) \<Longrightarrow>
   newlySelected emptyToken (selection ev) (previousSelections w) \<Longrightarrow>
   onDidChangeSelection d w ev =
     displayQuickPick d
       (w\<lparr>selectedItems := selection ev,
          v_token := (v_token w)\<lparr>isRandom := False, isEmpty := True\<rparr>,
          ignoreNext := True,
          previousSelections :=
            filter (\<lambda>i. i \<noteq> randomToken \<and> i \<noteq> specificToken) (previousSelections w)
            @ [emptyToken]\<rparr>)"
  by (simp add: onDidChangeSelection_def Let_def)

lemma handler_specific:
  "\<not> ignoreNext w \<Longrightarrow>
   \<not> newlySelected passwordEnabled (selection ev) (previousSelections w) \<Longrightarrow>
   \<not> newlySelected emptyToken (selection ev) (previousSelections w) \<Longrightarrow>
   newlySelected specificToken (selection ev) (previousSelections w) \<Longrightarrow>
   onDidChangeSelection d w ev =
     displayQuickPick d
       (if captureToken ev \<noteq> []
        then w\<lparr>selectedItems := selection ev,
               ignoreNext := True,
               v_token := \<lparr>tokenValue = captureToken ev, isRandom = False, isEmpty = False\<rparr>,
               previousSelections :=
                 filter (\<lambda>i. i \<noteq> emptyToken \<and> i \<noteq> randomToken) (previousSelections w)
                 @ [specificToken]\<rparr>
        else w\<lparr>selectedItems := selection ev,
               ignoreNext := True,
               v_token := (v_token w)\<lparr>isRandom := True, isEmpty := False\<rparr>,
               previousSelections :=
                 filter (\<lambda>i. i \<noteq> emptyToken \<and> i \<noteq> specificToken) (previousSelections w)
                 @ [randomToken]\<rparr>)"
  by (simp add: onDidChangeSelection_def Let_def)

lemma handler_default:
  "\<not> ignoreNext w \<Longrightarrow>
   \<not> newlySelected passwordEnabled (selection ev) (previousSelections w) \<Longrightarrow>
   \<not> newlySelected emptyToken (selection ev) (previousSelections w) \<Longrightarrow>
   \<not> newlySelected specificToken (selection ev) (previousSelections w) \<Longrightarrow>
   \<not> newlySelected cwdPrompt (selection ev) (previousSelections w) \<Longrightarrow>
   \<not> newlySelected localPathMapping (selection ev) (previousSelections w) \<Longrightarrow>
   \<not> newlyDeselected cwdPrompt (selection ev) (previousSelections w) \<Longrightarrow>
   onDidChangeSelection d w ev =
     (if emptyToken \<notin> set (selection ev) \<and> randomToken \<notin> set (selection ev)
      then w\<lparr>ignoreNext := True,
             selectedItems :=
               filter (\<lambda>i. i \<in> set (items d))
                 (filter (\<lambda>i. i \<noteq> emptyToken \<and> i \<noteq> randomToken) (selection ev)
                  @ [randomToken]),
             previousSelections :=
               filter (\<lambda>i. i \<in> set (items d))
                 (filter (\<lambda>i. i \<noteq> emptyToken \<and> i \<noteq> randomToken) (selection ev)
                  @ [randomToken])\<rparr>
      else w\<lparr>selectedItems := selection ev, previousSelections := selection ev\<rparr>)"
  by (simp add: onDidChangeSelection_def setSelectedItems_def Let_def)

text \<open>
  What the rule of lines 380 to 385 does when it applies: Random Token, which it appends,
  is dropped by the setter, so neither list holds it afterwards, and the flags of
  \<^verbatim>\<open>token\<close> are as they were.
\<close>

lemma handler_default_rule:
  assumes "reachesDefaultRule w ev"
    and "emptyToken \<notin> set (selection ev)" "randomToken \<notin> set (selection ev)"
  shows "v_token (onDidChangeSelection d w ev) = v_token w
       \<and> randomToken \<notin> set (selectedItems (onDidChangeSelection d w ev))
       \<and> randomToken \<notin> set (previousSelections (onDidChangeSelection d w ev))
       \<and> emptyToken \<notin> set (selectedItems (onDidChangeSelection d w ev))"
proof -
  from assms(1) have "onDidChangeSelection d w ev =
      w\<lparr>ignoreNext := True,
        selectedItems :=
          filter (\<lambda>i. i \<in> set (items d))
            (filter (\<lambda>i. i \<noteq> emptyToken \<and> i \<noteq> randomToken) (selection ev) @ [randomToken]),
        previousSelections :=
          filter (\<lambda>i. i \<in> set (items d))
            (filter (\<lambda>i. i \<noteq> emptyToken \<and> i \<noteq> randomToken) (selection ev) @ [randomToken])\<rparr>"
    using assms(2,3) handler_default [of w ev d] by (simp add: reachesDefaultRule_def)
  then show ?thesis
    by (simp add: randomToken_no_item)
qed

lemma exampleWizard_eq:
  "exampleWizard =
     \<lparr>v_shouldOpenBrowser = False, v_registerWithJupyterExtension = True, v_cors = True,
      v_cwd = ''/home/user/project'', v_useCustomWorkingDirectory = False, v_customCwd = None,
      v_jupyterExtensionWorkingDirectory = Some ''/home/user/project'',
      v_token = \<lparr>tokenValue = [], isRandom = True, isEmpty = False\<rparr>, v_password = [],
      ignoreNext = False, previousSelections = [corsEnabled], selectedItems = [corsEnabled]\<rparr>"
  by (simp add: exampleWizard_def initialWizard_def exampleLocals_def initialLocals_def
        items_def locals.extend_def wizard.fields_def Let_def)

lemma emptyChosen_eq:
  "emptyChosen =
     \<lparr>v_shouldOpenBrowser = False, v_registerWithJupyterExtension = True, v_cors = True,
      v_cwd = ''/home/user/project'', v_useCustomWorkingDirectory = False, v_customCwd = None,
      v_jupyterExtensionWorkingDirectory = Some ''/home/user/project'',
      v_token = \<lparr>tokenValue = [], isRandom = False, isEmpty = True\<rparr>, v_password = [],
      ignoreNext = False, previousSelections = [corsEnabled, emptyToken],
      selectedItems = [corsEnabled, emptyToken]\<rparr>"
  by (simp add: emptyChosen_def runEvents_def exampleWizard_eq selectEmpty_def
        onDidChangeSelection_def newlySelected_def newlyDeselected_def
        Let_def displayQuickPick_def setSelectedItems_def items_def uniq_def)

lemma emptyUnticked_eq:
  "emptyUnticked =
     \<lparr>v_shouldOpenBrowser = False, v_registerWithJupyterExtension = True, v_cors = True,
      v_cwd = ''/home/user/project'', v_useCustomWorkingDirectory = False, v_customCwd = None,
      v_jupyterExtensionWorkingDirectory = Some ''/home/user/project'',
      v_token = \<lparr>tokenValue = [], isRandom = False, isEmpty = True\<rparr>, v_password = [],
      ignoreNext = True, previousSelections = [corsEnabled],
      selectedItems = [corsEnabled]\<rparr>"
  by (simp add: emptyUnticked_def emptyChosen_eq selectOnlyCors_def
        onDidChangeSelection_def newlySelected_def newlyDeselected_def
        Let_def setSelectedItems_def items_def)


lemma reachable_runEvents: "reachable d v (runEvents d (initialWizard d v) evs)"
proof (induction evs rule: rev_induct)
  case Nil
  show ?case by (simp add: runEvents_def reachable.initial)
next
  case (snoc ev evs)
  then show ?case by (simp add: runEvents_def reachable.firing)
qed

lemma exampleWizard_initial:
  "exampleWizard = initialWizard False (initialLocals (Some ''/home/user/project'') ''/tmp'')"
  by (simp add: exampleWizard_def exampleLocals_def)

lemma toString_port: "toString 8888 = ''8888''"
  by (simp add: toString.simps digitChar_def)


text \<open>
  Claim C2, as stated: "In the configuration wizard, for every prior state of the token
  group, the event sequence select(Specific) followed by cancelling the nested text-input
  sub-prompt leaves the token group at the selection it had before Specific was chosen
  (Random if Random was the prior choice, Empty if Empty was the prior choice), never at an
  empty selection."

  This fails: with Empty Token as the prior choice (ticked, and the token mode at Empty),
  ticking Specific Token and dismissing the input box puts the token mode at Random, not
  back at Empty, and the selection of the list then holds no item of the token group at
  all.
\<close>

theorem specific_cancel_reverts_counterexample:
  "tokenModeOf (v_token emptyChosen) = ModeEmpty
   \<and> tokenGroup (selectedItems emptyChosen) = [emptyToken]
   \<and> opensTokenPrompt emptyChosen selectSpecificCancelled
   \<and> inputBox selectSpecificCancelled = None
   \<and> tokenModeOf (v_token (onDidChangeSelection False emptyChosen selectSpecificCancelled))
       = ModeRandom
   \<and> tokenGroup (selectedItems (onDidChangeSelection False emptyChosen selectSpecificCancelled))
       = []"
  by (simp add: emptyChosen_eq selectSpecificCancelled_def opensTokenPrompt_def
        onDidChangeSelection_def newlySelected_def newlyDeselected_def
        captureToken_def trim_def tokenModeOf_def tokenGroup_def
        Let_def displayQuickPick_def setSelectedItems_def items_def uniq_def)

text \<open>
  Claim C2, amended: for every prior state of the option list, ticking Specific Token
  and cancelling the input box puts the token mode at Random (the default), whatever
  the prior choice was, so at the prior choice only if that was Random. Random Token
  is then the one item of the token group in the selection the handler remembers
  (\<^verbatim>\<open>previousSelections\<close>); the selection of the list holds no item of the token group,
  Random Token not being an item of the list; and the firing that follows (the one the
  host makes for the selection just set) leaves the mode at Random.
\<close>

theorem specific_cancel_falls_back_to_random:
  assumes "opensTokenPrompt w ev" and "inputBox ev = None"
  shows "tokenModeOf (v_token (onDidChangeSelection d w ev)) = ModeRandom
       \<and> tokenGroup (previousSelections (onDidChangeSelection d w ev)) = [randomToken]
       \<and> tokenGroup (selectedItems (onDidChangeSelection d w ev)) = []
       \<and> tokenModeOf (v_token (onDidChangeSelection d (onDidChangeSelection d w ev) ev'))
           = ModeRandom"
proof -
  let ?zs = "filter (\<lambda>i. i \<noteq> emptyToken \<and> i \<noteq> specificToken) (previousSelections w)
             @ [randomToken]"
  let ?h = "onDidChangeSelection d w ev"
  from assms(2) have c: "captureToken ev = []"
    by (simp add: captureToken_def trim_Nil)
  from assms(1) have h: "?h =
      displayQuickPick d
        (w\<lparr>selectedItems := selection ev,
           ignoreNext := True,
           v_token := (v_token w)\<lparr>isRandom := True, isEmpty := False\<rparr>,
           previousSelections := ?zs\<rparr>)"
    using handler_specific [of w ev d] c by (simp add: opensTokenPrompt_def)
  have mode: "tokenModeOf (v_token ?h) = ModeRandom"
    by (simp add: h fields_displayQuickPick tokenModeOf_def)
  have prev: "tokenGroup (previousSelections ?h) = [randomToken]"
    by (simp add: h previousSelections_displayQuickPick tokenGroup_uniq_random)
  have "emptyToken \<notin> set (uniq ?zs)" "specificToken \<notin> set (uniq ?zs)"
    by (simp_all add: set_uniq)
  then have shown: "tokenGroup (selectedItems ?h) = []"
    by (simp add: h selectedItems_displayQuickPick tokenGroup_shown)
  have "ignoreNext ?h"
    by (simp add: h fields_displayQuickPick)
  then have "v_token (onDidChangeSelection d ?h ev') = v_token ?h"
    by (simp add: handler_ignoreNext)
  with mode have "tokenModeOf (v_token (onDidChangeSelection d ?h ev')) = ModeRandom"
    by simp
  with mode prev shown show ?thesis by simp
qed

theorem specific_cancel_falls_back_to_random_witness:
  "opensTokenPrompt emptyChosen selectSpecificCancelled
   \<and> inputBox selectSpecificCancelled = None
   \<and> tokenModeOf (v_token (onDidChangeSelection False emptyChosen selectSpecificCancelled))
       = ModeRandom
   \<and> tokenGroup (previousSelections
                   (onDidChangeSelection False emptyChosen selectSpecificCancelled))
       = [randomToken]
   \<and> tokenGroup (selectedItems (onDidChangeSelection False emptyChosen selectSpecificCancelled))
       = []
   \<and> tokenModeOf (v_token (onDidChangeSelection False
                              (onDidChangeSelection False emptyChosen selectSpecificCancelled)
                              selectOnlyCors))
       = ModeRandom"
proof -
  have a: "opensTokenPrompt emptyChosen selectSpecificCancelled"
    by (simp add: opensTokenPrompt_def emptyChosen_eq selectSpecificCancelled_def
          newlySelected_def)
  have b: "inputBox selectSpecificCancelled = None"
    by (simp add: selectSpecificCancelled_def)
  from specific_cancel_falls_back_to_random [OF a b, of False selectOnlyCors] a b
  show ?thesis by simp
qed





lemma materializeToken_value:
  "materializeToken clock t = Inr tk \<Longrightarrow>
     trim (tokenValue tk)
       = (if isRandom t then toString clock else if isEmpty t then [] else trim (tokenValue t))"
  by (auto simp: materializeToken_def trim_toString trim_Nil split: if_splits)

subsection \<open>From the option list to the launch parameters\<close>

lemma afterQuickPick_reads_selection:
  assumes "afterQuickPick d w p = Some v"
  shows "v_shouldOpenBrowser v = (openInBrowser \<in> set (selectedItems w))
       \<and> v_cors v = (corsEnabled \<in> set (selectedItems w))
       \<and> v_password v = (if passwordEnabled \<in> set (selectedItems w) then v_password w else [])
       \<and> v_cwd v = v_cwd w \<and> v_customCwd v = v_customCwd w
       \<and> v_useCustomWorkingDirectory v = v_useCustomWorkingDirectory w
       \<and> v_token v = v_token w"
  using assms
  by (auto simp: afterQuickPick_def Let_def locals.truncate_def split: if_splits)

lemma getLaunchArgs_Some:
  assumes "getLaunchArgs ty customize d folder tmp evs proceed probe c en = Inr (Some r)"
  shows "\<exists>v. launchArgsAfterWizard ty v probe c en = Inr (Some r)
           \<and> (if customize
               then afterQuickPick d (runEvents d (initialWizard d (initialLocals folder tmp)) evs)
                      proceed = Some v
               else v = initialLocals folder tmp)"
  using assms
  by (auto simp: getLaunchArgs_def Let_def split: if_splits option.splits)


text \<open>The test of lines 435 and 436 on its own: handed the Specific mode with a blank
  value, the build throws. The theorems below show that no run hands it one.\<close>

lemma materializeToken_guard:
  "\<not> isRandom t \<Longrightarrow> \<not> isEmpty t \<Longrightarrow> trim (tokenValue t) = [] \<Longrightarrow>
     materializeToken clock t = Inl (Error ''Token cannot be empty'')"
  by (simp add: materializeToken_def)


lemma runEvents_unticked:
  "runEvents False exampleWizard [selectEmpty, selectEmpty, selectOnlyCors] = emptyUnticked"
  by (simp add: runEvents_def emptyUnticked_def emptyChosen_def)


lemma accepted_unticked:
  "afterQuickPick False emptyUnticked True =
     Some \<lparr>v_shouldOpenBrowser = False, v_registerWithJupyterExtension = False, v_cors = True,
      v_cwd = ''/home/user/project'', v_useCustomWorkingDirectory = False, v_customCwd = None,
      v_jupyterExtensionWorkingDirectory = None,
      v_token = \<lparr>tokenValue = [], isRandom = False, isEmpty = True\<rparr>, v_password = []\<rparr>"
  by (simp add: emptyUnticked_eq afterQuickPick_def locals.truncate_def Let_def)


lemma launch_unticked:
  "launchArgsAfterWizard JupyterNotebook
     \<lparr>v_shouldOpenBrowser = False, v_registerWithJupyterExtension = False, v_cors = True,
      v_cwd = ''/home/user/project'', v_useCustomWorkingDirectory = False, v_customCwd = None,
      v_jupyterExtensionWorkingDirectory = None,
      v_token = \<lparr>tokenValue = [], isRandom = False, isEmpty = True\<rparr>, v_password = []\<rparr>
     (Inr 8888) False exampleEnv
     = Inr (Some \<lparr>shellArgs =
                    [''-m'', ''jupyter'', ''notebook'', ''--no-browser'',
                     ''--NotebookApp.allow_origin'', ''*'', ''--ServerApp.allow_origin'', ''*'',
                     ''--NotebookApp.token'', [], ''--ServerApp.token'', [],
                     ''--NotebookApp.password'', [], ''--ServerApp.password'', [],
                     ''--notebook-dir'', ''/home/user/project'', ''--port'', ''8888''],
                  token = [], port = Some 8888, password = [],
                  registerWithJupyterExtension = False, cwd = ''/home/user/project'',
                  jupyterExtensionWorkingDirectory = None\<rparr>)"
  by (simp add: launchArgsAfterWizard_def buildLaunchInfo_def materializeToken_def
        buildShellArgs_def trim_def toString_port Let_def)

lemma runEvents_unticked_echo:
  "runEvents False exampleWizard [selectEmpty, selectEmpty, selectOnlyCors, selectOnlyCors]
     = emptyUnticked\<lparr>ignoreNext := False\<rparr>"
proof -
  have "runEvents False exampleWizard [selectEmpty, selectEmpty, selectOnlyCors, selectOnlyCors]
          = onDidChangeSelection False emptyUnticked selectOnlyCors"
    by (simp add: runEvents_def emptyUnticked_def emptyChosen_def)
  also have "\<dots> = emptyUnticked\<lparr>ignoreNext := False\<rparr>"
    by (simp add: emptyUnticked_eq selectOnlyCors_def onDidChangeSelection_def Let_def)
  finally show ?thesis .
qed

lemma accepted_unticked_echo:
  "afterQuickPick False (emptyUnticked\<lparr>ignoreNext := False\<rparr>) True
     = afterQuickPick False emptyUnticked True"
  by (simp add: emptyUnticked_eq afterQuickPick_def locals.truncate_def Let_def)




text \<open>
  Claim C5: "At every state reachable by any sequence of wizard selection events,
  exactly one member of the token group {Random, Empty, Specific} is selected: any event
  that would leave the token group with no selected member re-adds the default (Random),
  and the argument vector built from an accepted state carries exactly one token mode in
  its token flags."

  The rule of lines 380 to 385 does not do that. Empty Token is ticked in the option
  list as it opens and then unticked, which leaves the token group with no selected
  member; the firing reaches the rule, which appends Random Token to the selection only
  (where the setter drops it, Random Token being no item of the list) and leaves the
  flags of \<^verbatim>\<open>token\<close> at Empty. On acceptance the server is launched with the empty
  token, not with a random one; the firing the host may make for the selection the rule
  has set changes nothing in that. The branch of lines 309 to 315, which falls back to
  Random as well, sets the flags.
\<close>

theorem unticking_empty_keeps_empty_token:
  "reachable False (initialLocals (Some ''/home/user/project'') ''/tmp'') emptyChosen
   \<and> tokenGroup (selectedItems emptyChosen) = [emptyToken]
   \<and> tokenModeOf (v_token emptyChosen) = ModeEmpty
   \<and> reachesDefaultRule emptyChosen selectOnlyCors
   \<and> tokenGroup (selection selectOnlyCors) = []
   \<and> tokenGroup (selectedItems emptyUnticked) = []
   \<and> tokenGroup (previousSelections emptyUnticked) = []
   \<and> tokenModeOf (v_token emptyUnticked) = ModeEmpty
   \<and> getLaunchArgs JupyterNotebook True False (Some ''/home/user/project'') ''/tmp''
        [selectEmpty, selectEmpty, selectOnlyCors] True (Inr 8888) False exampleEnv
     = Inr (Some \<lparr>shellArgs =
                    [''-m'', ''jupyter'', ''notebook'', ''--no-browser'',
                     ''--NotebookApp.allow_origin'', ''*'', ''--ServerApp.allow_origin'', ''*'',
                     ''--NotebookApp.token'', [], ''--ServerApp.token'', [],
                     ''--NotebookApp.password'', [], ''--ServerApp.password'', [],
                     ''--notebook-dir'', ''/home/user/project'', ''--port'', ''8888''],
                  token = [], port = Some 8888, password = [],
                  registerWithJupyterExtension = False, cwd = ''/home/user/project'',
                  jupyterExtensionWorkingDirectory = None\<rparr>)
   \<and> getLaunchArgs JupyterNotebook True False (Some ''/home/user/project'') ''/tmp''
        [selectEmpty, selectEmpty, selectOnlyCors, selectOnlyCors] True (Inr 8888) False
        exampleEnv
     = getLaunchArgs JupyterNotebook True False (Some ''/home/user/project'') ''/tmp''
        [selectEmpty, selectEmpty, selectOnlyCors] True (Inr 8888) False exampleEnv"
proof -
  have reach: "reachable False (initialLocals (Some ''/home/user/project'') ''/tmp'') emptyChosen"
    unfolding emptyChosen_def exampleWizard_initial
    by (rule reachable_runEvents)
  have before: "tokenGroup (selectedItems emptyChosen) = [emptyToken]
                \<and> tokenModeOf (v_token emptyChosen) = ModeEmpty"
    by (simp add: emptyChosen_eq tokenGroup_def tokenModeOf_def)
  have rule: "reachesDefaultRule emptyChosen selectOnlyCors
              \<and> tokenGroup (selection selectOnlyCors) = []"
    by (simp add: reachesDefaultRule_def emptyChosen_eq selectOnlyCors_def newlySelected_def
          newlyDeselected_def tokenGroup_def)
  have after: "tokenGroup (selectedItems emptyUnticked) = []
               \<and> tokenGroup (previousSelections emptyUnticked) = []
               \<and> tokenModeOf (v_token emptyUnticked) = ModeEmpty"
    by (simp add: emptyUnticked_eq tokenGroup_def tokenModeOf_def)
  have run: "getLaunchArgs JupyterNotebook True False (Some ''/home/user/project'') ''/tmp''
        [selectEmpty, selectEmpty, selectOnlyCors] True (Inr 8888) False exampleEnv
     = Inr (Some \<lparr>shellArgs =
                    [''-m'', ''jupyter'', ''notebook'', ''--no-browser'',
                     ''--NotebookApp.allow_origin'', ''*'', ''--ServerApp.allow_origin'', ''*'',
                     ''--NotebookApp.token'', [], ''--ServerApp.token'', [],
                     ''--NotebookApp.password'', [], ''--ServerApp.password'', [],
                     ''--notebook-dir'', ''/home/user/project'', ''--port'', ''8888''],
                  token = [], port = Some 8888, password = [],
                  registerWithJupyterExtension = False, cwd = ''/home/user/project'',
                  jupyterExtensionWorkingDirectory = None\<rparr>)"
    by (simp add: getLaunchArgs_def exampleWizard_initial [symmetric] runEvents_unticked
          accepted_unticked launch_unticked)
  have same: "getLaunchArgs JupyterNotebook True False (Some ''/home/user/project'') ''/tmp''
        [selectEmpty, selectEmpty, selectOnlyCors, selectOnlyCors] True (Inr 8888) False
        exampleEnv
     = getLaunchArgs JupyterNotebook True False (Some ''/home/user/project'') ''/tmp''
        [selectEmpty, selectEmpty, selectOnlyCors] True (Inr 8888) False exampleEnv"
    by (simp add: getLaunchArgs_def exampleWizard_initial [symmetric] runEvents_unticked
          runEvents_unticked_echo accepted_unticked_echo)
  from reach before rule after run same show ?thesis by simp
qed

section \<open>The registry of servers\<close>

lemma mapGet_mapSet: "mapGet (mapSet k v m) k' = (if k' = k then Some v else mapGet m k')"
  by (simp add: mapGet_def mapSet_def update_conv')

lemma mapHas_mapSet: "mapHas (mapSet k v m) k' \<longleftrightarrow> k' = k \<or> mapHas m k'"
  by (simp add: mapHas_def mapSet_def update_conv')

lemma mapHas_mapGet: "mapHas m k \<longleftrightarrow> mapGet m k \<noteq> None"
  by (simp add: mapHas_def mapGet_def)

lemma mapSet_changes: "\<not> mapHas m k \<Longrightarrow> mapSet k v m \<noteq> m"
  using mapHas_mapSet [of k v m k] by auto

subsection \<open>The inventory of terminals\<close>

lemma mapHas_terminalsByPidStep:
  "mapHas (terminalsByPidStep m t) p \<longleftrightarrow>
     mapHas m p \<or> (jupyterNamed t \<and> processId t = Some p \<and> p \<noteq> 0)"
  by (auto simp: terminalsByPidStep_def jupyterNamed_def mapGet_mapSet mapHas_mapGet
           split: option.splits if_splits)

lemma mapHas_foldl_terminalsByPidStep:
  "mapHas (foldl terminalsByPidStep m ts) p \<longleftrightarrow>
     mapHas m p \<or> (\<exists>t\<in>set ts. jupyterNamed t \<and> processId t = Some p \<and> p \<noteq> 0)"
proof (induction ts arbitrary: m)
  case Nil
  show ?case by simp
next
  case (Cons t ts)
  show ?case
    by (simp add: Cons.IH mapHas_terminalsByPidStep)
qed

lemma mapHas_terminalsByPid:
  "mapHas (terminalsByPid ts) p \<longleftrightarrow>
     (\<exists>t\<in>set ts. jupyterNamed t \<and> processId t = Some p \<and> p \<noteq> 0)"
proof -
  have "\<not> mapHas ([] :: (nat \<times> Terminal) list) p" by (simp add: mapHas_def)
  then show ?thesis
    by (simp add: terminalsByPid_def mapHas_foldl_terminalsByPidStep)
qed

subsection \<open>Restoring, revision \<open>_cs\<close>\<close>

lemma restoreOne_cs_memento: "memento_cs (restoreOne_cs bp s x) = memento_cs s"
  by (simp add: restoreOne_cs_def Let_def split: option.splits)

lemma foldl_restoreOne_cs_memento: "memento_cs (foldl (restoreOne_cs bp) s xs) = memento_cs s"
  by (induction xs arbitrary: s) (simp_all add: restoreOne_cs_memento)

lemma restoreOne_cs_dead:
  "\<not> mapHas bp (u_pid (serverUri_cs sv)) \<Longrightarrow> restoreOne_cs bp s (Some sv) = s"
  by (simp add: restoreOne_cs_def mapHas_mapGet split: option.splits)

lemma restoreOne_cs_present:
  "mapHas (servers_cs s) (toString (u_pid (serverUri_cs sv))) \<Longrightarrow> restoreOne_cs bp s (Some sv) = s"
  by (simp add: restoreOne_cs_def)

lemma restoreOne_cs_lookup:
  "mapGet (servers_cs (restoreOne_cs bp s x)) k = mapGet (servers_cs s) k
   \<or> (\<exists>sv. x = Some sv \<and> k = toString (u_pid (serverUri_cs sv))
          \<and> mapHas bp (u_pid (serverUri_cs sv)) \<and> \<not> mapHas (servers_cs s) k)"
  by (simp add: restoreOne_cs_def Let_def mapGet_mapSet mapHas_mapGet split: option.splits)

lemma restoreOne_cs_keeps:
  "mapHas (servers_cs s) k \<Longrightarrow>
     mapGet (servers_cs (restoreOne_cs bp s x)) k = mapGet (servers_cs s) k"
  using restoreOne_cs_lookup [of bp s x k] by blast

lemma restoreOne_cs_dead_key:
  "\<not> mapHas bp p \<Longrightarrow>
     mapGet (servers_cs (restoreOne_cs bp s x)) (toString p) = mapGet (servers_cs s) (toString p)"
  using restoreOne_cs_lookup [of bp s x "toString p"] toString_inj by blast

lemma foldl_restoreOne_cs_dead_key:
  "\<not> mapHas bp p \<Longrightarrow>
     mapGet (servers_cs (foldl (restoreOne_cs bp) s xs)) (toString p)
       = mapGet (servers_cs s) (toString p)"
  by (induction xs arbitrary: s) (simp_all add: restoreOne_cs_dead_key)

lemma foldl_restoreOne_cs_keeps:
  "mapHas (servers_cs s) k \<Longrightarrow>
     mapGet (servers_cs (foldl (restoreOne_cs bp) s xs)) k = mapGet (servers_cs s) k"
proof (induction xs arbitrary: s)
  case Nil
  show ?case by simp
next
  case (Cons x xs)
  from Cons.prems have g: "mapGet (servers_cs (restoreOne_cs bp s x)) k = mapGet (servers_cs s) k"
    by (rule restoreOne_cs_keeps)
  with Cons.prems have "mapHas (servers_cs (restoreOne_cs bp s x)) k"
    by (simp add: mapHas_mapGet)
  with Cons.IH g show ?case by simp
qed

lemma restoreOne_cs_cases:
  "restoreOne_cs bp s x = s
   \<or> (\<exists>sv t. x = Some sv \<and> \<not> mapHas (servers_cs s) (toString (u_pid (serverUri_cs sv)))
          \<and> restoreOne_cs bp s x =
              s\<lparr>created_cs := created_cs s
                     @ [(toString (u_pid (serverUri_cs sv)), u_label (serverUri_cs sv))],
                servers_cs :=
                  mapSet (toString (u_pid (serverUri_cs sv)))
                    (sv\<lparr>disposables_cs :=
                          [TerminalDisposable t, ServerHandle (toString (u_pid (serverUri_cs sv)))]\<rparr>)
                    (servers_cs s)\<rparr>)"
  by (auto simp: restoreOne_cs_def Let_def split: option.splits)

lemma restoreOne_cs_mono:
  "mapHas (servers_cs s) k \<Longrightarrow> mapHas (servers_cs (restoreOne_cs bp s x)) k"
  using restoreOne_cs_keeps [of s k bp x] by (simp add: mapHas_mapGet)

lemma restoreOne_cs_settled_id:
  assumes "restoreOne_cs bp s x = s"
  shows "x = None \<or> (\<exists>sv. x = Some sv \<and> (u_pid (serverUri_cs sv) = 0
           \<or> mapHas (servers_cs s) (toString (u_pid (serverUri_cs sv)))
           \<or> \<not> mapHas bp (u_pid (serverUri_cs sv))))"
proof (cases x)
  case None
  then show ?thesis by simp
next
  case (Some sv)
  show ?thesis
  proof (rule ccontr)
    assume n: "\<not> ?thesis"
    with Some obtain t where t: "mapGet bp (u_pid (serverUri_cs sv)) = Some t"
      by (auto simp: mapHas_mapGet)
    from n Some t have "created_cs (restoreOne_cs bp s x)
        = created_cs s @ [(toString (u_pid (serverUri_cs sv)), u_label (serverUri_cs sv))]"
      by (simp add: restoreOne_cs_def Let_def)
    with assms show False by simp
  qed
qed

lemma restoreOne_cs_settled_step:
  assumes "restoreOne_cs bp s x = s"
  shows "restoreOne_cs bp (restoreOne_cs bp s y) x = restoreOne_cs bp s y"
proof -
  from restoreOne_cs_settled_id [OF assms] consider
      (none) "x = None"
    | (some) sv where "x = Some sv"
        "u_pid (serverUri_cs sv) = 0
         \<or> mapHas (servers_cs s) (toString (u_pid (serverUri_cs sv)))
         \<or> \<not> mapHas bp (u_pid (serverUri_cs sv))"
    by blast
  then show ?thesis
  proof cases
    case none
    then show ?thesis by (simp add: restoreOne_cs_def)
  next
    case some
    from some(2) consider "u_pid (serverUri_cs sv) = 0"
      | "mapHas (servers_cs (restoreOne_cs bp s y)) (toString (u_pid (serverUri_cs sv)))"
      | "\<not> mapHas bp (u_pid (serverUri_cs sv))"
      using restoreOne_cs_mono [of s "toString (u_pid (serverUri_cs sv))" bp y] by auto
    then show ?thesis
    proof cases
      case 1
      with some(1) show ?thesis by (simp add: restoreOne_cs_def)
    next
      case 2
      with some(1) show ?thesis by (simp add: restoreOne_cs_present)
    next
      case 3
      with some(1) show ?thesis by (simp add: restoreOne_cs_dead)
    qed
  qed
qed

lemma restoreOne_cs_twice:
  "restoreOne_cs bp (restoreOne_cs bp s x) x = restoreOne_cs bp s x"
proof -
  from restoreOne_cs_cases [of bp s x] consider
      (same) "restoreOne_cs bp s x = s"
    | (added) sv where "x = Some sv"
        "mapHas (servers_cs (restoreOne_cs bp s x)) (toString (u_pid (serverUri_cs sv)))"
    by (auto simp: mapHas_mapSet)
  then show ?thesis
  proof cases
    case same
    then show ?thesis by simp
  next
    case added
    then show ?thesis by (simp add: restoreOne_cs_present)
  qed
qed

lemma foldl_restoreOne_cs_settled:
  "x \<in> set xs \<Longrightarrow>
     restoreOne_cs bp (foldl (restoreOne_cs bp) s xs) x = foldl (restoreOne_cs bp) s xs"
proof (induction xs rule: rev_induct)
  case Nil
  then show ?case by simp
next
  case (snoc y ys)
  show ?case
  proof (cases "x = y")
    case True
    then show ?thesis by (simp add: restoreOne_cs_twice)
  next
    case False
    with snoc have "restoreOne_cs bp (foldl (restoreOne_cs bp) s ys) x
                      = foldl (restoreOne_cs bp) s ys"
      by simp
    then show ?thesis by (simp add: restoreOne_cs_settled_step)
  qed
qed

lemma foldl_settled: "(\<forall>x\<in>set xs. f s x = s) \<Longrightarrow> foldl f s xs = s"
  by (induction xs) simp_all

lemma restoreJupyterServers_cs_idem:
  "restoreJupyterServers_cs ts (restoreJupyterServers_cs ts s) = restoreJupyterServers_cs ts s"
proof -
  let ?f = "restoreOne_cs (terminalsByPid ts)"
  let ?s' = "foldl ?f s (memento_cs s)"
  have "memento_cs ?s' = memento_cs s"
    by (rule foldl_restoreOne_cs_memento)
  moreover have "foldl ?f ?s' (memento_cs s) = ?s'"
    by (rule foldl_settled) (simp add: foldl_restoreOne_cs_settled)
  ultimately show ?thesis
    by (simp add: restoreJupyterServers_cs_def)
qed

subsection \<open>Restoring, revision \<open>_sp\<close>\<close>

lemma restoreOne_sp_cases:
  "restoreOne_sp h bp s x = Inr s
   \<or> (\<exists>sv. x = Some sv \<and> u_pid (serverUri_sp sv) \<noteq> 0
          \<and> \<not> mapHas (servers_sp s) (toString (u_pid (serverUri_sp sv)))
          \<and> mapHas bp (u_pid (serverUri_sp sv))
          \<and> (restoreOne_sp h bp s x = Inl (TypeError ''Invalid URL'')
              \<or> (\<exists>e. restoreOne_sp h bp s x =
                    Inr (s\<lparr>servers_sp :=
                             mapSet (toString (u_pid (serverUri_sp sv))) e (servers_sp s)\<rparr>))))"
  by (auto simp: restoreOne_sp_def Let_def mapHas_mapGet split: option.splits)

lemma restoreOne_sp_dead:
  "\<not> mapHas bp (u_pid (serverUri_sp sv)) \<Longrightarrow> restoreOne_sp h bp s (Some sv) = Inr s"
  using restoreOne_sp_cases [of h bp s "Some sv"] by auto

lemma restoreOne_sp_present:
  "mapHas (servers_sp s) (toString (u_pid (serverUri_sp sv))) \<Longrightarrow>
     restoreOne_sp h bp s (Some sv) = Inr s"
  using restoreOne_sp_cases [of h bp s "Some sv"] by auto

lemma restoreOne_sp_zero:
  "u_pid (serverUri_sp sv) = 0 \<Longrightarrow> restoreOne_sp h bp s (Some sv) = Inr s"
  using restoreOne_sp_cases [of h bp s "Some sv"] by auto

lemma restoreOne_sp_fields:
  assumes "restoreOne_sp h bp s x = Inr s'"
  shows "memento_sp s' = memento_sp s \<and> fired_sp s' = fired_sp s \<and> output_sp s' = output_sp s"
  using restoreOne_sp_cases [of h bp s x] assms by auto

lemma restoreOne_sp_lookup:
  assumes "restoreOne_sp h bp s x = Inr s'"
  shows "mapGet (servers_sp s') k = mapGet (servers_sp s) k
   \<or> (\<exists>sv. x = Some sv \<and> k = toString (u_pid (serverUri_sp sv))
          \<and> mapHas bp (u_pid (serverUri_sp sv)) \<and> \<not> mapHas (servers_sp s) k)"
  using restoreOne_sp_cases [of h bp s x] assms by (auto simp: mapGet_mapSet)

lemma restoreOne_sp_keeps:
  "restoreOne_sp h bp s x = Inr s' \<Longrightarrow> mapHas (servers_sp s) k \<Longrightarrow>
     mapGet (servers_sp s') k = mapGet (servers_sp s) k"
  using restoreOne_sp_lookup [of h bp s x s' k] by blast

lemma restoreOne_sp_mono:
  "restoreOne_sp h bp s x = Inr s' \<Longrightarrow> mapHas (servers_sp s) k \<Longrightarrow> mapHas (servers_sp s') k"
  using restoreOne_sp_keeps [of h bp s x s' k] by (simp add: mapHas_mapGet)

lemma restoreOne_sp_dead_key:
  "restoreOne_sp h bp s x = Inr s' \<Longrightarrow> \<not> mapHas bp p \<Longrightarrow>
     mapGet (servers_sp s') (toString p) = mapGet (servers_sp s) (toString p)"
  using restoreOne_sp_lookup [of h bp s x s' "toString p"] toString_inj by blast

lemma forEachThrowing_sp_dead_key:
  "\<not> mapHas bp p \<Longrightarrow>
     mapGet (servers_sp (fst (forEachThrowing (restoreOne_sp h bp) s xs))) (toString p)
       = mapGet (servers_sp s) (toString p)"
proof (induction xs arbitrary: s)
  case Nil
  show ?case by simp
next
  case (Cons x xs)
  show ?case
  proof (cases "restoreOne_sp h bp s x")
    case (Inl e)
    then show ?thesis by simp
  next
    case (Inr s')
    with Cons.prems have "mapGet (servers_sp s') (toString p) = mapGet (servers_sp s) (toString p)"
      by (simp add: restoreOne_sp_dead_key)
    with Inr Cons show ?thesis by simp
  qed
qed

lemma forEachThrowing_sp_keeps:
  "mapHas (servers_sp s) k \<Longrightarrow>
     mapGet (servers_sp (fst (forEachThrowing (restoreOne_sp h bp) s xs))) k
       = mapGet (servers_sp s) k"
proof (induction xs arbitrary: s)
  case Nil
  show ?case by simp
next
  case (Cons x xs)
  show ?case
  proof (cases "restoreOne_sp h bp s x")
    case (Inl e)
    then show ?thesis by simp
  next
    case (Inr s')
    with Cons.prems have g: "mapGet (servers_sp s') k = mapGet (servers_sp s) k"
      and m: "mapHas (servers_sp s') k"
      by (simp_all add: restoreOne_sp_keeps restoreOne_sp_mono)
    from Cons.IH [OF m] g Inr show ?thesis by simp
  qed
qed

lemma forEachThrowing_sp_fields:
  "forEachThrowing (restoreOne_sp h bp) s xs = (s', eo) \<Longrightarrow>
     memento_sp s' = memento_sp s \<and> fired_sp s' = fired_sp s \<and> output_sp s' = output_sp s"
proof (induction xs arbitrary: s)
  case Nil
  then show ?case by simp
next
  case (Cons x xs)
  show ?case
  proof (cases "restoreOne_sp h bp s x")
    case (Inl e)
    with Cons.prems show ?thesis by simp
  next
    case (Inr s1)
    with Cons.prems have "forEachThrowing (restoreOne_sp h bp) s1 xs = (s', eo)" by simp
    with Cons.IH restoreOne_sp_fields [OF Inr] show ?thesis by simp
  qed
qed

lemma restoreOne_sp_settled_id:
  assumes "restoreOne_sp h bp s (Some sv) = Inr s"
  shows "u_pid (serverUri_sp sv) = 0
        \<or> mapHas (servers_sp s) (toString (u_pid (serverUri_sp sv)))
        \<or> \<not> mapHas bp (u_pid (serverUri_sp sv))"
proof (rule ccontr)
  assume n: "\<not> ?thesis"
  let ?k = "toString (u_pid (serverUri_sp sv))"
  from n obtain t where t: "mapGet bp (u_pid (serverUri_sp sv)) = Some t"
    by (auto simp: mapHas_mapGet)
  from assms n t have "\<exists>e. s\<lparr>servers_sp := mapSet ?k e (servers_sp s)\<rparr> = s"
    by (auto simp: restoreOne_sp_def Let_def split: option.splits)
  then obtain e where "s\<lparr>servers_sp := mapSet ?k e (servers_sp s)\<rparr> = s" ..
  then have "servers_sp (s\<lparr>servers_sp := mapSet ?k e (servers_sp s)\<rparr>) = servers_sp s"
    by (rule arg_cong)
  then have "mapSet ?k e (servers_sp s) = servers_sp s" by simp
  moreover from n have "\<not> mapHas (servers_sp s) ?k" by simp
  ultimately show False using mapSet_changes [of "servers_sp s" ?k e] by simp
qed

lemma restoreOne_sp_settled_step:
  assumes "restoreOne_sp h bp s x = Inr s" and "restoreOne_sp h bp s y = Inr s2"
  shows "restoreOne_sp h bp s2 x = Inr s2"
proof (cases x)
  case None
  then show ?thesis by (simp add: restoreOne_sp_def)
next
  case (Some sv)
  with assms(1) have "u_pid (serverUri_sp sv) = 0
        \<or> mapHas (servers_sp s) (toString (u_pid (serverUri_sp sv)))
        \<or> \<not> mapHas bp (u_pid (serverUri_sp sv))"
    by (simp add: restoreOne_sp_settled_id)
  then consider "u_pid (serverUri_sp sv) = 0"
    | "mapHas (servers_sp s2) (toString (u_pid (serverUri_sp sv)))"
    | "\<not> mapHas bp (u_pid (serverUri_sp sv))"
    using restoreOne_sp_mono [OF assms(2), of "toString (u_pid (serverUri_sp sv))"] by auto
  then show ?thesis
  proof cases
    case 1
    with Some show ?thesis by (simp add: restoreOne_sp_zero)
  next
    case 2
    with Some show ?thesis by (simp add: restoreOne_sp_present)
  next
    case 3
    with Some show ?thesis by (simp add: restoreOne_sp_dead)
  qed
qed

lemma restoreOne_sp_twice:
  assumes "restoreOne_sp h bp s x = Inr s2"
  shows "restoreOne_sp h bp s2 x = Inr s2"
proof -
  from restoreOne_sp_cases [of h bp s x] assms consider
      (same) "s2 = s"
    | (added) sv where "x = Some sv"
        "mapHas (servers_sp s2) (toString (u_pid (serverUri_sp sv)))"
    by (auto simp: mapHas_mapSet)
  then show ?thesis
  proof cases
    case same
    with assms show ?thesis by simp
  next
    case added
    then show ?thesis by (simp add: restoreOne_sp_present)
  qed
qed

lemma forEachThrowing_settled_prefix:
  "(\<forall>y\<in>set ys. f s y = Inr s) \<Longrightarrow> forEachThrowing f s (ys @ zs) = forEachThrowing f s zs"
  by (induction ys) simp_all

lemma forEachThrowing_sp_again:
  assumes "forEachThrowing (restoreOne_sp h bp) s xs = (s', eo)"
    and "\<forall>y\<in>set ys. restoreOne_sp h bp s y = Inr s"
  shows "forEachThrowing (restoreOne_sp h bp) s' (ys @ xs) = (s', eo)"
  using assms
proof (induction xs arbitrary: s ys)
  case Nil
  then have "s' = s" "eo = None" by simp_all
  with Nil.prems(2) forEachThrowing_settled_prefix [of ys "restoreOne_sp h bp" s "[]"]
  show ?case by simp
next
  case (Cons x xs)
  show ?case
  proof (cases "restoreOne_sp h bp s x")
    case (Inl e)
    with Cons.prems(1) have "s' = s" "eo = Some e" by simp_all
    with Inl Cons.prems(2) forEachThrowing_settled_prefix [of ys "restoreOne_sp h bp" s "x # xs"]
    show ?thesis by simp
  next
    case (Inr s1)
    with Cons.prems(1) have run: "forEachThrowing (restoreOne_sp h bp) s1 xs = (s', eo)"
      by simp
    have "\<forall>y\<in>set (ys @ [x]). restoreOne_sp h bp s1 y = Inr s1"
      using Cons.prems(2) Inr restoreOne_sp_settled_step [of h bp s _ x s1]
        restoreOne_sp_twice [OF Inr]
      by auto
    from Cons.IH [OF run this] show ?thesis by simp
  qed
qed

lemma restoreOne_sp_fired:
  "restoreOne_sp h bp (s\<lparr>fired_sp := n\<rparr>) x
     = (case restoreOne_sp h bp s x of Inl e \<Rightarrow> Inl e | Inr t \<Rightarrow> Inr (t\<lparr>fired_sp := n\<rparr>))"
  by (simp add: restoreOne_sp_def Let_def split: option.splits)

lemma forEachThrowing_sp_fired:
  "forEachThrowing (restoreOne_sp h bp) (s\<lparr>fired_sp := n\<rparr>) xs
     = (case forEachThrowing (restoreOne_sp h bp) s xs of (t, eo) \<Rightarrow> (t\<lparr>fired_sp := n\<rparr>, eo))"
proof (induction xs arbitrary: s)
  case Nil
  show ?case by simp
next
  case (Cons x xs)
  show ?case
    by (cases "restoreOne_sp h bp s x") (simp_all add: restoreOne_sp_fired Cons.IH)
qed

lemma restoreJupyterServers_sp_idem:
  "servers_sp (fst (restoreJupyterServers_sp h ts (fst (restoreJupyterServers_sp h ts s))))
     = servers_sp (fst (restoreJupyterServers_sp h ts s))
   \<and> snd (restoreJupyterServers_sp h ts (fst (restoreJupyterServers_sp h ts s)))
     = snd (restoreJupyterServers_sp h ts s)"
proof -
  let ?g = "restoreOne_sp h (terminalsByPid ts)"
  obtain s' eo where run: "forEachThrowing ?g s (memento_sp s) = (s', eo)"
    by (cases "forEachThrowing ?g s (memento_sp s)")
  from forEachThrowing_sp_fields [OF run] have mem: "memento_sp s' = memento_sp s" by simp
  from forEachThrowing_sp_again [OF run, of "[]"]
  have again: "forEachThrowing ?g s' (memento_sp s) = (s', eo)" by simp
  show ?thesis
  proof (cases eo)
    case None
    with run mem again show ?thesis
      by (simp add: restoreJupyterServers_sp_def forEachThrowing_sp_fired)
  next
    case (Some e)
    with run mem again show ?thesis
      by (simp add: restoreJupyterServers_sp_def)
  qed
qed

section \<open>Adding and restoring servers\<close>

lemma addJupyterServer_cs_has:
  "mapHas (servers_cs (fst (addJupyterServer_cs server s))) (toString (pid server))"
  by (simp add: addJupyterServer_cs_def Let_def storeJupyterServers_cs_def mapHas_mapSet)

lemma addJupyterServer_sp_has:
  "mapHas (servers_sp (addJupyterServer_sp server s)) (toString (pid server))"
  by (simp add: addJupyterServer_sp_def Let_def storeJupyterServers_sp_def mapHas_mapSet)

lemma duplicate_add_cs:
  assumes "mapHas (servers_cs s) (toString (pid server))"
  shows "addJupyterServer_cs server s =
           (s\<lparr>output_cs :=
                appendLine (''[Warning]: Jupyter server already started for this workspace with pid ''
                              @ toString (pid server) @ ''.'') (output_cs s)\<rparr>,
            None)"
  using assms by (simp add: addJupyterServer_cs_def)

lemma duplicate_add_sp:
  assumes "mapHas (servers_sp t) (toString (pid server))"
  shows "addJupyterServer_sp server t =
           t\<lparr>output_sp :=
               appendLine (''[Warning]: Jupyter server already started for this workspace with pid ''
                             @ toString (pid server) @ ''.'') (output_sp t)\<rparr>"
  using assms by (simp add: addJupyterServer_sp_def)

text \<open>
  Claim C3. Adding a server whose process id is already a key of the map changes nothing
  but the output channel, which receives the warning: the map and its size, the stored
  list, the calls of \<^verbatim>\<open>createServer\<close> (revision \<open>_cs\<close>) and the count of change events
  (revision \<open>_sp\<close>) are as before, and the function returns undefined. It has no
  throwing path. In particular a second add of the same server, right after the first,
  leaves the map, the stored list, the calls of \<^verbatim>\<open>createServer\<close> and the count of
  change events as the first add left them.
\<close>

theorem duplicate_add_only_warns:
  "(mapHas (servers_cs s) (toString (pid server)) \<longrightarrow>
      servers_cs (fst (addJupyterServer_cs server s)) = servers_cs s
      \<and> length (servers_cs (fst (addJupyterServer_cs server s))) = length (servers_cs s)
      \<and> memento_cs (fst (addJupyterServer_cs server s)) = memento_cs s
      \<and> created_cs (fst (addJupyterServer_cs server s)) = created_cs s
      \<and> snd (addJupyterServer_cs server s) = None
      \<and> output_cs (fst (addJupyterServer_cs server s))
          = appendLine (''[Warning]: Jupyter server already started for this workspace with pid ''
                          @ toString (pid server) @ ''.'') (output_cs s))
   \<and> (mapHas (servers_sp t) (toString (pid server)) \<longrightarrow>
      servers_sp (addJupyterServer_sp server t) = servers_sp t
      \<and> length (servers_sp (addJupyterServer_sp server t)) = length (servers_sp t)
      \<and> memento_sp (addJupyterServer_sp server t) = memento_sp t
      \<and> fired_sp (addJupyterServer_sp server t) = fired_sp t
      \<and> output_sp (addJupyterServer_sp server t)
          = appendLine (''[Warning]: Jupyter server already started for this workspace with pid ''
                          @ toString (pid server) @ ''.'') (output_sp t))
   \<and> servers_cs (fst (addJupyterServer_cs server (fst (addJupyterServer_cs server s))))
       = servers_cs (fst (addJupyterServer_cs server s))
   \<and> memento_cs (fst (addJupyterServer_cs server (fst (addJupyterServer_cs server s))))
       = memento_cs (fst (addJupyterServer_cs server s))
   \<and> created_cs (fst (addJupyterServer_cs server (fst (addJupyterServer_cs server s))))
       = created_cs (fst (addJupyterServer_cs server s))
   \<and> servers_sp (addJupyterServer_sp server (addJupyterServer_sp server t))
       = servers_sp (addJupyterServer_sp server t)
   \<and> memento_sp (addJupyterServer_sp server (addJupyterServer_sp server t))
       = memento_sp (addJupyterServer_sp server t)
   \<and> fired_sp (addJupyterServer_sp server (addJupyterServer_sp server t))
       = fired_sp (addJupyterServer_sp server t)"
proof -
  have once_cs: "mapHas (servers_cs (fst (addJupyterServer_cs server s))) (toString (pid server))"
    by (rule addJupyterServer_cs_has)
  have once_sp: "mapHas (servers_sp (addJupyterServer_sp server t)) (toString (pid server))"
    by (rule addJupyterServer_sp_has)
  have a: "mapHas (servers_cs s) (toString (pid server)) \<longrightarrow>
      servers_cs (fst (addJupyterServer_cs server s)) = servers_cs s
      \<and> length (servers_cs (fst (addJupyterServer_cs server s))) = length (servers_cs s)
      \<and> memento_cs (fst (addJupyterServer_cs server s)) = memento_cs s
      \<and> created_cs (fst (addJupyterServer_cs server s)) = created_cs s
      \<and> snd (addJupyterServer_cs server s) = None
      \<and> output_cs (fst (addJupyterServer_cs server s))
          = appendLine (''[Warning]: Jupyter server already started for this workspace with pid ''
                          @ toString (pid server) @ ''.'') (output_cs s)"
    by (simp add: duplicate_add_cs)
  have b: "mapHas (servers_sp t) (toString (pid server)) \<longrightarrow>
      servers_sp (addJupyterServer_sp server t) = servers_sp t
      \<and> length (servers_sp (addJupyterServer_sp server t)) = length (servers_sp t)
      \<and> memento_sp (addJupyterServer_sp server t) = memento_sp t
      \<and> fired_sp (addJupyterServer_sp server t) = fired_sp t
      \<and> output_sp (addJupyterServer_sp server t)
          = appendLine (''[Warning]: Jupyter server already started for this workspace with pid ''
                          @ toString (pid server) @ ''.'') (output_sp t)"
    by (simp add: duplicate_add_sp)
  from a b show ?thesis
    by (simp add: duplicate_add_cs [OF once_cs] duplicate_add_sp [OF once_sp])
qed

theorem duplicate_add_only_warns_witness:
  "mapHas (servers_cs running_cs) (toString (pid labServer))
   \<and> servers_cs (fst (addJupyterServer_cs labServer running_cs)) = servers_cs running_cs
   \<and> length (servers_cs (fst (addJupyterServer_cs labServer running_cs))) = 2
   \<and> memento_cs (fst (addJupyterServer_cs labServer running_cs)) = memento_cs running_cs
   \<and> created_cs (fst (addJupyterServer_cs labServer running_cs)) = created_cs running_cs
   \<and> mapHas (servers_sp running_sp) (toString (pid labServer))
   \<and> servers_sp (addJupyterServer_sp labServer running_sp) = servers_sp running_sp
   \<and> length (servers_sp (addJupyterServer_sp labServer running_sp)) = 2
   \<and> memento_sp (addJupyterServer_sp labServer running_sp) = memento_sp running_sp
   \<and> fired_sp (addJupyterServer_sp labServer running_sp) = 2"
proof -
  have h1: "mapHas (servers_cs running_cs) (toString (pid labServer))"
    unfolding running_cs_def by (rule addJupyterServer_cs_has)
  have h2: "mapHas (servers_sp running_sp) (toString (pid labServer))"
    unfolding running_sp_def by (rule addJupyterServer_sp_has)
  have t: "toString 4242 = ''4242''" "toString 5000 = ''5000''"
    by (simp_all add: toString.simps digitChar_def)
  have l1: "length (servers_cs running_cs) = 2"
    by (simp add: running_cs_def addJupyterServer_cs_def Let_def storeJupyterServers_cs_def
          exampleServer_def labServer_def emptyState_cs_def mapHas_def mapSet_def t)
  have l2: "length (servers_sp running_sp) = 2" "fired_sp running_sp = 2"
    by (simp_all add: running_sp_def addJupyterServer_sp_def Let_def storeJupyterServers_sp_def
          exampleServer_def labServer_def emptyState_sp_def mapHas_def mapSet_def t)
  from duplicate_add_only_warns [of running_cs labServer running_sp] h1 h2 l1 l2
  show ?thesis by simp
qed

lemma restoreJupyterServers_sp_servers:
  "servers_sp (fst (restoreJupyterServers_sp h ts s))
     = servers_sp (fst (forEachThrowing (restoreOne_sp h (terminalsByPid ts)) s (memento_sp s)))"
  by (simp add: restoreJupyterServers_sp_def split: prod.splits option.splits)

lemma restoreJupyterServers_cs_dead_key:
  "\<not> mapHas (terminalsByPid ts) p \<Longrightarrow>
     mapGet (servers_cs (restoreJupyterServers_cs ts s)) (toString p)
       = mapGet (servers_cs s) (toString p)"
  by (simp add: restoreJupyterServers_cs_def foldl_restoreOne_cs_dead_key)

lemma restoreJupyterServers_sp_dead_key:
  "\<not> mapHas (terminalsByPid ts) p \<Longrightarrow>
     mapGet (servers_sp (fst (restoreJupyterServers_sp h ts s))) (toString p)
       = mapGet (servers_sp s) (toString p)"
  by (simp add: restoreJupyterServers_sp_servers forEachThrowing_sp_dead_key)

text \<open>
  Claim C6. For a process id that is not in the inventory of live terminals, the callback
  on a stored record with that id returns the state as it was (no entry, no call of
  \<^verbatim>\<open>createServer\<close>, no throw), and the whole restore leaves the map as it was under the
  key of that id: absent if it was absent, the same entry if there was one.
\<close>

theorem dead_record_is_dropped:
  assumes "\<not> mapHas (terminalsByPid terminals) p"
  shows "(u_pid (serverUri_cs a) = p \<longrightarrow>
            restoreOne_cs (terminalsByPid terminals) s (Some a) = s)
       \<and> mapGet (servers_cs (restoreJupyterServers_cs terminals s)) (toString p)
           = mapGet (servers_cs s) (toString p)
       \<and> (u_pid (serverUri_sp b) = p \<longrightarrow>
            restoreOne_sp h (terminalsByPid terminals) t (Some b) = Inr t)
       \<and> mapGet (servers_sp (fst (restoreJupyterServers_sp h terminals t))) (toString p)
           = mapGet (servers_sp t) (toString p)"
  using assms
  by (auto simp: restoreOne_cs_dead restoreOne_sp_dead restoreJupyterServers_cs_dead_key
        restoreJupyterServers_sp_dead_key)

lemma exampleTerminals_inventory:
  "\<not> mapHas (terminalsByPid exampleTerminals) 4242"
  "mapHas (terminalsByPid exampleTerminals) 5000"
  by (simp_all add: mapHas_terminalsByPid exampleTerminals_def jupyterNamed_def startsWith_def)

theorem dead_record_is_dropped_witness:
  "\<not> mapHas (terminalsByPid exampleTerminals) 4242
   \<and> Some \<lparr>serverUri_cs =
              \<lparr>u_pid = 4242, u_baseUrl = Uri_parse ''http://localhost:8888/'', u_token = ''abc'',
               u_label = ''Jupyter Notebook http://localhost:8888/'',
               u_mappedRemoteNotebookDir = None, u_authorizationHeader = None\<rparr>,
            disposables_cs = []\<rparr> \<in> set (memento_cs restarted_cs)
   \<and> mapGet (servers_cs (restoreJupyterServers_cs exampleTerminals restarted_cs)) (toString 4242)
       = None
   \<and> mapGet (servers_sp (fst (restoreJupyterServers_sp exampleHost exampleTerminals restarted_sp)))
        (toString 4242) = None"
proof -
  have t: "toString 4242 = ''4242''" "toString 5000 = ''5000''"
    by (simp_all add: toString.simps digitChar_def)
  have dead: "\<not> mapHas (terminalsByPid exampleTerminals) 4242"
    by (rule exampleTerminals_inventory)
  have m: "Some \<lparr>serverUri_cs =
              \<lparr>u_pid = 4242, u_baseUrl = Uri_parse ''http://localhost:8888/'', u_token = ''abc'',
               u_label = ''Jupyter Notebook http://localhost:8888/'',
               u_mappedRemoteNotebookDir = None, u_authorizationHeader = None\<rparr>,
            disposables_cs = []\<rparr> \<in> set (memento_cs restarted_cs)"
    by (simp add: restarted_cs_def running_cs_def addJupyterServer_cs_def Let_def
          storeJupyterServers_cs_def exampleServer_def labServer_def emptyState_cs_def
          mapHas_def mapSet_def t)
  have e1: "mapGet (servers_cs restarted_cs) (toString 4242) = None"
    by (simp add: restarted_cs_def emptyState_cs_def mapGet_def)
  have e2: "mapGet (servers_sp restarted_sp) (toString 4242) = None"
    by (simp add: restarted_sp_def emptyState_sp_def mapGet_def)
  from dead_record_is_dropped [OF dead, of _ restarted_cs _ exampleHost restarted_sp] e1 e2 dead m
  show ?thesis by simp
qed

lemma restoreJupyterServers_cs_keeps:
  "mapHas (servers_cs s) k \<Longrightarrow>
     mapGet (servers_cs (restoreJupyterServers_cs ts s)) k = mapGet (servers_cs s) k"
  by (simp add: restoreJupyterServers_cs_def foldl_restoreOne_cs_keeps)

lemma restoreJupyterServers_sp_keeps:
  "mapHas (servers_sp s) k \<Longrightarrow>
     mapGet (servers_sp (fst (restoreJupyterServers_sp h ts s))) k = mapGet (servers_sp s) k"
  by (simp add: restoreJupyterServers_sp_servers forEachThrowing_sp_keeps)

text \<open>
  Claim C7. The restore never replaces an entry that is in the map already, and
  restoring twice against the same terminals gives what restoring once gives: the same
  state in revision \<open>_cs\<close>; the same map, and the same outcome (completion or the same
  error), in revision \<open>_sp\<close>, whose second run fires its change event once more.
\<close>

theorem restore_is_idempotent:
  "(mapHas (servers_cs s) k \<longrightarrow>
      mapGet (servers_cs (restoreJupyterServers_cs terminals s)) k = mapGet (servers_cs s) k)
   \<and> restoreJupyterServers_cs terminals (restoreJupyterServers_cs terminals s)
       = restoreJupyterServers_cs terminals s
   \<and> (mapHas (servers_sp t) k \<longrightarrow>
      mapGet (servers_sp (fst (restoreJupyterServers_sp h terminals t))) k
        = mapGet (servers_sp t) k)
   \<and> servers_sp (fst (restoreJupyterServers_sp h terminals
                         (fst (restoreJupyterServers_sp h terminals t))))
       = servers_sp (fst (restoreJupyterServers_sp h terminals t))
   \<and> snd (restoreJupyterServers_sp h terminals (fst (restoreJupyterServers_sp h terminals t)))
       = snd (restoreJupyterServers_sp h terminals t)"
  using restoreJupyterServers_cs_idem [of terminals s] restoreJupyterServers_sp_idem [of h terminals t]
  by (simp add: restoreJupyterServers_cs_keeps restoreJupyterServers_sp_keeps)

theorem restore_is_idempotent_witness:
  "mapHas (servers_cs running_cs) (toString (pid labServer))
   \<and> mapGet (servers_cs (restoreJupyterServers_cs exampleTerminals running_cs))
        (toString (pid labServer))
       = mapGet (servers_cs running_cs) (toString (pid labServer))
   \<and> mapHas (servers_sp running_sp) (toString (pid labServer))
   \<and> mapGet (servers_sp (fst (restoreJupyterServers_sp exampleHost exampleTerminals running_sp)))
        (toString (pid labServer))
       = mapGet (servers_sp running_sp) (toString (pid labServer))
   \<and> restoreJupyterServers_cs exampleTerminals
        (restoreJupyterServers_cs exampleTerminals restarted_cs)
       = restoreJupyterServers_cs exampleTerminals restarted_cs"
proof -
  have h1: "mapHas (servers_cs running_cs) (toString (pid labServer))"
    unfolding running_cs_def by (rule addJupyterServer_cs_has)
  have h2: "mapHas (servers_sp running_sp) (toString (pid labServer))"
    unfolding running_sp_def by (rule addJupyterServer_sp_has)
  from restore_is_idempotent
         [of running_cs "toString (pid labServer)" exampleTerminals running_sp exampleHost]
       restore_is_idempotent
         [of restarted_cs "toString (pid labServer)" exampleTerminals running_sp exampleHost]
       h1 h2
  show ?thesis by blast
qed

text \<open>
  Claim C10. A process id is in the inventory exactly if some terminal whose name starts
  with "Jupyter Notebook at" or "Jupyter Lab at" has it (and it is not 0). So a stored
  record whose process id belongs only to terminals of other names is treated like one
  whose process is gone: its callback returns the state as it was, and the restore leaves
  the map as it was under its key.
\<close>

theorem inventory_is_jupyter_named_terminals:
  "(mapHas (terminalsByPid terminals) p \<longleftrightarrow>
      (\<exists>x\<in>set terminals. jupyterNamed x \<and> processId x = Some p \<and> p \<noteq> 0))
   \<and> ((\<forall>x\<in>set terminals. processId x = Some p \<longrightarrow> \<not> jupyterNamed x) \<longrightarrow>
        (u_pid (serverUri_cs a) = p \<longrightarrow>
           restoreOne_cs (terminalsByPid terminals) s (Some a) = s)
        \<and> mapGet (servers_cs (restoreJupyterServers_cs terminals s)) (toString p)
            = mapGet (servers_cs s) (toString p)
        \<and> (u_pid (serverUri_sp b) = p \<longrightarrow>
             restoreOne_sp h (terminalsByPid terminals) t (Some b) = Inr t)
        \<and> mapGet (servers_sp (fst (restoreJupyterServers_sp h terminals t))) (toString p)
            = mapGet (servers_sp t) (toString p))"
proof (intro conjI impI)
  show "mapHas (terminalsByPid terminals) p \<longleftrightarrow>
      (\<exists>x\<in>set terminals. jupyterNamed x \<and> processId x = Some p \<and> p \<noteq> 0)"
    by (rule mapHas_terminalsByPid)
next
  assume "\<forall>x\<in>set terminals. processId x = Some p \<longrightarrow> \<not> jupyterNamed x"
  then have dead: "\<not> mapHas (terminalsByPid terminals) p"
    by (auto simp: mapHas_terminalsByPid)
  {
    assume "u_pid (serverUri_cs a) = p"
    with dead show "restoreOne_cs (terminalsByPid terminals) s (Some a) = s"
      by (simp add: restoreOne_cs_dead)
  }
  from dead show "mapGet (servers_cs (restoreJupyterServers_cs terminals s)) (toString p)
            = mapGet (servers_cs s) (toString p)"
    by (rule restoreJupyterServers_cs_dead_key)
  {
    assume "u_pid (serverUri_sp b) = p"
    with dead show "restoreOne_sp h (terminalsByPid terminals) t (Some b) = Inr t"
      by (simp add: restoreOne_sp_dead)
  }
  from dead show "mapGet (servers_sp (fst (restoreJupyterServers_sp h terminals t))) (toString p)
            = mapGet (servers_sp t) (toString p)"
    by (rule restoreJupyterServers_sp_dead_key)
qed

theorem inventory_is_jupyter_named_terminals_witness:
  "exampleTerminals =
     [\<lparr>name = ''bash'', processId = Some 4242\<rparr>,
      \<lparr>name = ''Jupyter Lab at 8889'', processId = Some 5000\<rparr>]
   \<and> \<not> jupyterNamed \<lparr>name = ''bash'', processId = Some 4242\<rparr>
   \<and> jupyterNamed \<lparr>name = ''Jupyter Lab at 8889'', processId = Some 5000\<rparr>
   \<and> \<not> mapHas (terminalsByPid exampleTerminals) 4242
   \<and> mapHas (terminalsByPid exampleTerminals) 5000
   \<and> mapGet (servers_cs (restoreJupyterServers_cs exampleTerminals restarted_cs)) (toString 4242)
       = mapGet (servers_cs restarted_cs) (toString 4242)
   \<and> mapGet (servers_sp (fst (restoreJupyterServers_sp exampleHost exampleTerminals restarted_sp)))
        (toString 4242)
       = mapGet (servers_sp restarted_sp) (toString 4242)"
proof -
  have a: "\<not> jupyterNamed \<lparr>name = ''bash'', processId = Some 4242\<rparr>"
    "jupyterNamed \<lparr>name = ''Jupyter Lab at 8889'', processId = Some 5000\<rparr>"
    by (simp_all add: jupyterNamed_def startsWith_def)
  from a have b: "\<forall>x\<in>set exampleTerminals. processId x = Some 4242 \<longrightarrow> \<not> jupyterNamed x"
    by (simp add: exampleTerminals_def)
  from a have c: "\<exists>x\<in>set exampleTerminals.
                    jupyterNamed x \<and> processId x = Some 5000 \<and> (5000::nat) \<noteq> 0"
    by (simp add: exampleTerminals_def)
  note i1 = inventory_is_jupyter_named_terminals
              [of exampleTerminals 4242 _ restarted_cs _ exampleHost restarted_sp]
  note i2 = inventory_is_jupyter_named_terminals
              [of exampleTerminals 5000 _ restarted_cs _ exampleHost restarted_sp]
  from i1 b have d: "\<not> mapHas (terminalsByPid exampleTerminals) 4242" by blast
  from i2 c have e: "mapHas (terminalsByPid exampleTerminals) 5000" by blast
  from i1 b have f:
    "mapGet (servers_cs (restoreJupyterServers_cs exampleTerminals restarted_cs)) (toString 4242)
       = mapGet (servers_cs restarted_cs) (toString 4242)
     \<and> mapGet (servers_sp (fst (restoreJupyterServers_sp exampleHost exampleTerminals
                                  restarted_sp))) (toString 4242)
       = mapGet (servers_sp restarted_sp) (toString 4242)"
    by blast
  from a d e f show ?thesis by (simp add: exampleTerminals_def)
qed

section \<open>Resolving and removing servers, revision \<open>_up\<close>\<close>

lemma mapHas_keys: "mapHas m k \<longleftrightarrow> k \<in> fst ` set m"
  by (simp add: mapHas_def map_of_eq_None_iff)

lemma hasNumber_iff:
  "hasNumber m n \<longleftrightarrow> (\<exists>k\<in>fst ` set m. n = Some (int k))"
proof (cases n)
  case None
  then show ?thesis by (simp add: hasNumber_def)
next
  case (Some i)
  show ?thesis
  proof (cases "i < 0")
    case True
    with Some show ?thesis by (auto simp: hasNumber_def)
  next
    case False
    then have "\<And>k. (i = int k) = (k = nat i)" by auto
    with Some False show ?thesis by (simp add: hasNumber_def mapHas_keys)
  qed
qed

lemma getNumber_int: "getNumber m (Some (int k)) = mapGet m k"
  by (simp add: getNumber_def)

text \<open>
  Claim C9. \<^verbatim>\<open>getServerUri\<close> throws "Invalid handle" exactly if the handle, parsed as
  an integer, is not a key of the map, and it throws nothing else; for a handle whose
  number is a key it returns the \<^verbatim>\<open>serverUri\<close> stored under that key, as it is.
\<close>

theorem getServerUri_invalid_handle_iff:
  "(getServerUri_up handle s = Inl (Error ''Invalid handle'')
      \<longleftrightarrow> \<not> (\<exists>k\<in>fst ` set (servers_up s). parseInt handle = Some (int k)))
   \<and> (\<forall>k e. parseInt handle = Some (int k) \<and> mapGet (servers_up s) k = Some e
          \<longrightarrow> getServerUri_up handle s = Inr (serverUri_up e))
   \<and> (\<forall>err. getServerUri_up handle s = Inl err \<longrightarrow> err = Error ''Invalid handle'')"
proof (intro conjI allI impI)
  show "getServerUri_up handle s = Inl (Error ''Invalid handle'')
      \<longleftrightarrow> \<not> (\<exists>k\<in>fst ` set (servers_up s). parseInt handle = Some (int k))"
    by (simp add: getServerUri_up_def hasNumber_iff)
next
  fix k e
  assume a: "parseInt handle = Some (int k) \<and> mapGet (servers_up s) k = Some e"
  then have "hasNumber (servers_up s) (parseInt handle)"
    by (simp add: hasNumber_def mapHas_mapGet)
  with a show "getServerUri_up handle s = Inr (serverUri_up e)"
    by (simp add: getServerUri_up_def getNumber_int)
next
  fix err
  assume "getServerUri_up handle s = Inl err"
  then show "err = Error ''Invalid handle''"
    by (simp add: getServerUri_up_def split: if_splits)
qed

lemma getHandles_resolve:
  assumes "handle \<in> set (getHandles_up s)"
  shows "\<exists>u. getServerUri_up handle s = Inr u"
proof -
  from assms obtain k where k: "k \<in> fst ` set (servers_up s)" "handle = toString k"
    by (auto simp: getHandles_up_def)
  then have "hasNumber (servers_up s) (parseInt handle)"
    by (auto simp: hasNumber_iff parseInt_toString)
  then show ?thesis by (simp add: getServerUri_up_def)
qed

lemma running_up_eq:
  "servers_up running_up =
     [(4242, \<lparr>serverUri_up =
                \<lparr>p_baseUrl = ''http://localhost:8888/'', p_token = ''abc'',
                 p_displayName = ''Jupyter Notebook http://localhost:8888/'',
                 p_mappedRemoteNotebookDir = None, p_authorizationHeader = None\<rparr>,
              serverInfo_up = exampleServer\<rparr>)]
   \<and> fired_up running_up = 1 \<and> disposed_up running_up = []"
  by (simp add: running_up_def addJupyterServer_up_def Let_def storeJupyterServers_up_def
        emptyState_up_def mapHas_def mapSet_def exampleServer_def)

lemma parseInt_examples:
  "parseInt ''4242'' = Some 4242" "parseInt ''abc'' = None" "parseInt ''7'' = Some 7"
  by (simp_all add: parseInt_def isWhiteSpace_def isDigit_def digitsValue_def digitValue_def)

theorem getServerUri_invalid_handle_iff_witness:
  "parseInt ''4242'' = Some (int 4242)
   \<and> mapGet (servers_up running_up) 4242
       = Some \<lparr>serverUri_up =
                \<lparr>p_baseUrl = ''http://localhost:8888/'', p_token = ''abc'',
                 p_displayName = ''Jupyter Notebook http://localhost:8888/'',
                 p_mappedRemoteNotebookDir = None, p_authorizationHeader = None\<rparr>,
              serverInfo_up = exampleServer\<rparr>
   \<and> getServerUri_up ''4242'' running_up
       = Inr \<lparr>p_baseUrl = ''http://localhost:8888/'', p_token = ''abc'',
              p_displayName = ''Jupyter Notebook http://localhost:8888/'',
              p_mappedRemoteNotebookDir = None, p_authorizationHeader = None\<rparr>
   \<and> parseInt ''abc'' = None
   \<and> getServerUri_up ''abc'' running_up = Inl (Error ''Invalid handle'')"
proof -
  let ?e = "\<lparr>serverUri_up =
                \<lparr>p_baseUrl = ''http://localhost:8888/'', p_token = ''abc'',
                 p_displayName = ''Jupyter Notebook http://localhost:8888/'',
                 p_mappedRemoteNotebookDir = None, p_authorizationHeader = None\<rparr>,
              serverInfo_up = exampleServer\<rparr>"
  have p: "parseInt ''4242'' = Some (int 4242)" "parseInt ''abc'' = None"
    by (simp_all add: parseInt_examples)
  have g: "mapGet (servers_up running_up) 4242 = Some ?e"
    by (simp add: running_up_eq mapGet_def)
  from p have n: "\<not> (\<exists>k\<in>fst ` set (servers_up running_up). parseInt ''abc'' = Some (int k))"
    by simp
  from getServerUri_invalid_handle_iff [of "''4242''" running_up] p g
  have a: "getServerUri_up ''4242'' running_up = Inr (serverUri_up ?e)" by blast
  from getServerUri_invalid_handle_iff [of "''abc''" running_up] n
  have b: "getServerUri_up ''abc'' running_up = Inl (Error ''Invalid handle'')" by blast
  from p g n a b show ?thesis by simp
qed

subsection \<open>Removing a server\<close>

lemma removeHandle_up_fires: "fired_up (removeHandle_up handle s) = fired_up s + 1"
  by (simp add: removeHandle_up_def Let_def split: option.splits)

lemma removeHandle_up_absent:
  "\<not> hasNumber (servers_up s) (parseInt handle) \<Longrightarrow>
     servers_up (removeHandle_up handle s) = servers_up s
     \<and> disposed_up (removeHandle_up handle s) = disposed_up s"
  by (auto simp: removeHandle_up_def Let_def hasNumber_def getNumber_def deleteNumber_def
        mapHas_mapGet mapDelete_def mapGet_def map_of_eq_None_iff
      split: option.splits)

lemma shutdownJupyterServer_up_fires:
  "fired_up (shutdownJupyterServer_up terminal s)
     = (if (\<exists>p. processId terminal = Some p \<and> p \<noteq> 0 \<and> mapHas (servers_up s) p)
        then fired_up s + 1 else fired_up s)"
  by (auto simp: shutdownJupyterServer_up_def mapHas_mapGet split: option.splits)

lemma shutdownJupyterServer_up_removes:
  "processId terminal = Some p \<Longrightarrow> p \<noteq> 0 \<Longrightarrow>
     \<not> mapHas (servers_up (shutdownJupyterServer_up terminal s)) p"
  by (auto simp: shutdownJupyterServer_up_def mapHas_mapGet mapDelete_def mapGet_def
        delete_conv' split: option.splits)

text \<open>
  Claim C8, at the input where the code departs from it. On the map without the key 4242,
  \<^verbatim>\<open>removeHandle("4242")\<close> leaves the map as it is and yet fires the change event once;
  \<^verbatim>\<open>shutdownJupyterServer\<close> on a terminal of that process id fires nothing.
\<close>

theorem removeHandle_fires_without_transition:
  "\<not> hasNumber (servers_up emptyState_up) (parseInt ''4242'')
   \<and> servers_up (removeHandle_up ''4242'' emptyState_up) = servers_up emptyState_up
   \<and> fired_up emptyState_up = 0
   \<and> fired_up (removeHandle_up ''4242'' emptyState_up) = 1
   \<and> fired_up (shutdownJupyterServer_up \<lparr>name = ''bash'', processId = Some 4242\<rparr> emptyState_up) = 0"
  by (simp add: removeHandle_up_def shutdownJupyterServer_up_def Let_def emptyState_up_def
        parseInt_examples hasNumber_def getNumber_def deleteNumber_def mapHas_def mapGet_def
        mapDelete_def AList.delete_eq)

end
